theory Spec2Isabelle
  imports Complex_Main
begin

section \<open>Constants of app.py\<close>

definition VERIFICATION_STEPS :: "string list" where
  "VERIFICATION_STEPS =
     [''Initiating Inter-Bank Verification API...'',
      ''Querying NBC Network for account status...'',
      ''Matching farmer details against bank records...'',
      ''Identifying and flagging inaccurate accounts...'',
      ''Verification Complete. Results updated.'']"

definition PAYMENT_STEPS :: "string list" where
  "PAYMENT_STEPS =
     [''Initiating Capital Pay secure engine...'',
      ''Pre-processing and validating verified data...'',
      ''Connecting to inter-bank payment gateway...'',
      ''Securely settling respective farmers' accounts...'',
      ''Transactions successful! Finalizing report...'']"

definition COST_PER_ROW_USD :: real where
  "COST_PER_ROW_USD = 150 / 100"

definition EXCHANGE_RATE_TSH_TO_USD :: real where
  "EXCHANGE_RATE_TSH_TO_USD = 2500"

definition PAYMENT_COMMISSION_RATE :: real where
  "PAYMENT_COMMISSION_RATE = 25 / 1000"

section \<open>Python values used by the handlers\<close>

text \<open>
  Exceptions are values. \<open>PreventUpdate\<close> is Dash's own exception: the callback ends
  and no output is written. Amounts are Python floats in the source; they are
  idealised as \<^typ>\<open>real\<close>, so every statement about an amount is about the
  exact value that the float arithmetic approximates.
\<close>

datatype py_error = PreventUpdate | IndexError | AttributeError | TypeError | IntegrityError

text \<open>A callback output is either written or left alone (\<open>dash.no_update\<close>).\<close>

datatype 'a upd = No_update | Put 'a

subsection \<open>Strings: \<open>str.split()\<close>, \<open>str.upper()\<close>, decimal formatting\<close>

text \<open>
  Text is ASCII here: \<open>is_space\<close> lists the ASCII characters for which Python's
  \<open>str.isspace\<close> holds, and \<open>upper_char\<close> maps \<open>a..z\<close> to \<open>A..Z\<close>.
\<close>

definition is_space :: "char \<Rightarrow> bool" where
  "is_space c =
     (c \<in> set [CHR 0x09, CHR 0x0A, CHR 0x0B, CHR 0x0C, CHR 0x0D,
                CHR 0x1C, CHR 0x1D, CHR 0x1E, CHR 0x1F, CHR 0x20])"

text \<open>\<open>s.split()\<close>: the maximal runs of non-whitespace characters, in order.
  The first argument is the token being read.\<close>

fun split_from :: "string \<Rightarrow> string \<Rightarrow> string list" where
  "split_from cur [] = (if cur = [] then [] else [cur])"
| "split_from cur (c # cs) =
     (if is_space c then (if cur = [] then split_from [] cs else cur # split_from [] cs)
      else split_from (cur @ [c]) cs)"

definition split :: "string \<Rightarrow> string list" where
  "split s = split_from [] s"

definition upper_char :: "char \<Rightarrow> char" where
  "upper_char c =
     (case map_of (zip ''abcdefghijklmnopqrstuvwxyz'' ''ABCDEFGHIJKLMNOPQRSTUVWXYZ'') c of
        Some C \<Rightarrow> C
      | None \<Rightarrow> c)"

definition upper :: "string \<Rightarrow> string" where
  "upper s = map upper_char s"

definition digit_char :: "nat \<Rightarrow> char" where
  "digit_char d = ''0123456789'' ! d"

text \<open>\<open>str(n)\<close> of a non-negative integer.\<close>

function str_nat :: "nat \<Rightarrow> string" where
  "str_nat n = (if n < 10 then [digit_char n] else str_nat (n div 10) @ [digit_char (n mod 10)])"
  by pat_completeness auto
termination
  by (relation "measure id") auto

declare str_nat.simps [simp del]

text \<open>The format \<open>{n:04d}\<close>: decimal digits, padded with zeros on the left to width 4.\<close>

definition fmt_04d :: "nat \<Rightarrow> string" where
  "fmt_04d n = (let s = str_nat n in replicate (4 - length s) (CHR ''0'') @ s)"

text \<open>An f-string field \<open>{v}\<close> of a value that is a string or \<open>None\<close>.\<close>

fun fmt_opt :: "string option \<Rightarrow> string" where
  "fmt_opt None = ''None''"
| "fmt_opt (Some s) = s"

text \<open>Truth value of a string or \<open>None\<close>: \<open>None\<close> and the empty string are false.\<close>

fun truthy :: "string option \<Rightarrow> bool" where
  "truthy None = False"
| "truthy (Some s) = (s \<noteq> [])"

subsection \<open>The random source\<close>

text \<open>
  The handlers draw from Python's global generator. It is a sequence of raw draws
  with a cursor; \<open>random()\<close> reads the next draw as a 53-bit fraction in \<open>[0, 1)\<close>,
  \<open>choice(xs)\<close> reads the next draw as a position of the non-empty list \<open>xs\<close>.
\<close>

record rng =
  draws :: "nat \<Rightarrow> nat"
  cursor :: nat

definition next_draw :: "rng \<Rightarrow> nat \<times> rng" where
  "next_draw g = (draws g (cursor g), g\<lparr>cursor := Suc (cursor g)\<rparr>)"

definition random :: "rng \<Rightarrow> real \<times> rng" where
  "random g = (case next_draw g of (k, g') \<Rightarrow> (real (k mod 2 ^ 53) / 2 ^ 53, g'))"

definition choice :: "'a list \<Rightarrow> rng \<Rightarrow> 'a \<times> rng" where
  "choice xs g = (case next_draw g of (k, g') \<Rightarrow> (xs ! (k mod length xs), g'))"

subsection \<open>The clock\<close>

text \<open>\<open>datetime.now()\<close> is an input of every handler that reads it.\<close>

record datetime =
  year :: nat
  instant :: nat

section \<open>The database\<close>

text \<open>
  One record per table of \<open>init_db\<close>, one field per column, in the column order.
  A \<open>TEXT\<close> column that the handlers read as nullable is a \<^typ>\<open>string option\<close>
  (\<open>NULL\<close> is \<open>None\<close>). A table is the list of its rows in insertion order, which
  is the order in which an unordered \<open>SELECT\<close> returns them.
\<close>

record user =
  u_id :: nat
  u_username :: string
  u_password :: string
  u_role :: string
  u_cooperative_name :: "string option"
  u_industry :: "string option"
  u_temp_password :: "string option"
  u_passphrase :: "string option"
  u_pin :: "string option"

record submission_batch =
  b_id :: nat
  b_cooperative_id :: nat
  b_filename :: string
  b_record_count :: nat
  b_total_amount :: real
  b_submission_timestamp :: datetime
  b_status :: string
  b_admin_notes :: "string option"
  b_cooperative_notes :: "string option"

record farmer_payment =
  fp_id :: nat
  fp_batch_id :: nat
  fp_farmer_name :: string
  fp_bank_name :: string
  fp_account_number :: string
  fp_amount :: real
  fp_status :: "string option"
  fp_verification_status :: "string option"
  fp_verification_reason :: "string option"
  fp_failure_reason :: "string option"

record invoice =
  inv_id :: nat
  inv_batch_id :: nat
  inv_cooperative_name :: "string option"
  inv_submission_timestamp :: datetime
  inv_row_count :: nat
  inv_amount_usd :: real
  inv_status :: "string option"
  inv_payment_date :: "datetime option"
  inv_invoice_reference :: "string option"
  inv_payment_commission_usd :: "real option"
  inv_payment_commission_reference :: "string option"

record payment_history_entry =
  ph_id :: nat
  ph_batch_id :: nat
  ph_cooperative_name :: "string option"
  ph_filename :: string
  ph_record_count :: nat
  ph_total_amount :: real
  ph_processing_timestamp :: datetime

text \<open>The \<open>details\<close> column of \<open>activity_logs\<close> is display text and is left out.\<close>

record activity_log =
  log_id :: nat
  log_timestamp :: datetime
  log_user_id :: nat
  log_cooperative_name :: "string option"
  log_action :: string

record db =
  users :: "user list"
  submission_batches :: "submission_batch list"
  farmer_payments :: "farmer_payment list"
  invoices :: "invoice list"
  payment_history :: "payment_history_entry list"
  activity_logs :: "activity_log list"

text \<open>\<open>INTEGER PRIMARY KEY AUTOINCREMENT\<close>: one more than the largest id in use
  (no handler deletes a row).\<close>

definition next_rowid :: "nat list \<Rightarrow> nat" where
  "next_rowid ids = Suc (fold max ids 0)"

text \<open>The decoded \<open>user-session\<close> store, as \<open>authenticate_user\<close> builds it.\<close>

record session =
  sd_id :: nat
  sd_username :: string
  sd_role :: string
  sd_cooperative_name :: "string option"

subsection \<open>Credential checks and the activity log\<close>

text \<open>\<open>H\<close> stands for \<open>hashlib.sha256(s.encode()).hexdigest()\<close>.\<close>

definition check_user_passphrase :: "(string \<Rightarrow> string) \<Rightarrow> db \<Rightarrow> nat \<Rightarrow> string \<Rightarrow> bool" where
  "check_user_passphrase H d user_id passphrase_attempt =
     (case filter (\<lambda>u. u_id u = user_id) (users d) of
        [] \<Rightarrow> False
      | u # _ \<Rightarrow> u_passphrase u = Some (H passphrase_attempt))"

definition check_user_pin :: "(string \<Rightarrow> string) \<Rightarrow> db \<Rightarrow> nat \<Rightarrow> string \<Rightarrow> bool" where
  "check_user_pin H d user_id pin_attempt =
     (case filter (\<lambda>u. u_id u = user_id) (users d) of
        [] \<Rightarrow> False
      | u # _ \<Rightarrow> u_pin u = Some (H pin_attempt))"

definition log_activity :: "datetime \<Rightarrow> db \<Rightarrow> nat \<Rightarrow> string \<Rightarrow> db" where
  "log_activity now d user_id action =
     (let cooperative_name =
            (case filter (\<lambda>u. u_id u = user_id) (users d) of
               [] \<Rightarrow> Some ''System''
             | u # _ \<Rightarrow> u_cooperative_name u)
      in d\<lparr>activity_logs := activity_logs d @
            [\<lparr>log_id = next_rowid (map log_id (activity_logs d)), log_timestamp = now,
              log_user_id = user_id, log_cooperative_name = cooperative_name,
              log_action = action\<rparr>]\<rparr>)"

section \<open>Invoice and commission ledger\<close>

text \<open>\<open>cooperative_name.split()[0].upper()\<close>, with the two ways it raises.\<close>

definition coop_short :: "string option \<Rightarrow> py_error + string" where
  "coop_short cooperative_name =
     (case cooperative_name of
        None \<Rightarrow> Inl AttributeError
      | Some name \<Rightarrow> (case split name of [] \<Rightarrow> Inl IndexError | tok # _ \<Rightarrow> Inr (upper tok)))"

text \<open>
  \<open>create_invoice\<close> works inside the caller's transaction: it returns the connection's
  new state and the pair of the source. The \<open>UNIQUE\<close> constraint on \<open>batch_id\<close>
  makes the \<open>INSERT\<close> raise when the batch already has an invoice.
\<close>

definition create_invoice ::
  "datetime \<Rightarrow> db \<Rightarrow> nat \<Rightarrow> string option \<Rightarrow> nat \<Rightarrow> datetime \<Rightarrow> py_error + (db \<times> real \<times> string)" where
  "create_invoice now conn batch_id cooperative_name row_count timestamp =
     (let amount_usd = real row_count * COST_PER_ROW_USD in
      case coop_short cooperative_name of
        Inl e \<Rightarrow> Inl e
      | Inr coop_short_name \<Rightarrow>
          (let next_id = length (filter (\<lambda>i. inv_cooperative_name i = cooperative_name) (invoices conn)) + 1;
               invoice_ref = coop_short_name @ ''-'' @ fmt_04d next_id @ ''-'' @ str_nat (year now)
           in if batch_id \<in> set (map inv_batch_id (invoices conn)) then Inl IntegrityError
              else Inr (conn\<lparr>invoices := invoices conn @
                     [\<lparr>inv_id = next_rowid (map inv_id (invoices conn)), inv_batch_id = batch_id,
                       inv_cooperative_name = cooperative_name, inv_submission_timestamp = timestamp,
                       inv_row_count = row_count, inv_amount_usd = amount_usd,
                       inv_status = Some ''unpaid'', inv_payment_date = None,
                       inv_invoice_reference = Some invoice_ref,
                       inv_payment_commission_usd = None,
                       inv_payment_commission_reference = None\<rparr>]\<rparr>,
                     amount_usd, invoice_ref)))"

definition create_payment_commission ::
  "db \<Rightarrow> nat \<Rightarrow> string option \<Rightarrow> real \<Rightarrow> py_error + (db \<times> real \<times> string)" where
  "create_payment_commission conn batch_id cooperative_name total_amount_tsh =
     (let commission_tsh = total_amount_tsh * PAYMENT_COMMISSION_RATE;
          commission_usd = commission_tsh / EXCHANGE_RATE_TSH_TO_USD
      in case coop_short cooperative_name of
           Inl e \<Rightarrow> Inl e
         | Inr coop_short_name \<Rightarrow>
             (let ref_num = ''CP-PAY-'' @ coop_short_name @ ''-'' @ str_nat batch_id
              in Inr (conn\<lparr>invoices :=
                        map (\<lambda>i. if inv_batch_id i = batch_id
                                 then i\<lparr>inv_payment_commission_usd := Some commission_usd,
                                        inv_payment_commission_reference := Some ref_num\<rparr>
                                 else i) (invoices conn)\<rparr>,
                      commission_usd, ref_num)))"

section \<open>Uploader side: verification and submission\<close>

text \<open>
  A row of the uploaded table, as the data table hands it to the handlers. A
  \<open>DataFrame\<close> is its column names and its rows; the index is the default one, so
  \<open>df.loc[index, ...]\<close> addresses the row at that position.
\<close>

record table_row =
  farmer_name :: string
  bank_name :: string
  account_number :: string
  amount :: real
  verification_status :: "string option"
  verification_reason :: "string option"

record dataframe =
  df_columns :: "string list"
  df_rows :: "table_row list"

text \<open>\<open>df[c] = v\<close> appends the column \<open>c\<close> when the frame does not have it.\<close>

definition set_column :: "string \<Rightarrow> string list \<Rightarrow> string list" where
  "set_column c cols = (if c \<in> set cols then cols else cols @ [c])"

text \<open>The body of \<open>for index in df.index\<close>, row by row.\<close>

fun verification_loop :: "table_row list \<Rightarrow> rng \<Rightarrow> table_row list \<times> rng" where
  "verification_loop [] g = ([], g)"
| "verification_loop (r # rs) g =
     (case random g of (u, g1) \<Rightarrow>
        if u < 15 / 100
        then (case choice [''Account Closed'', ''Name Mismatch'', ''Invalid Bank Code'',
                           ''System Check Failed''] g1 of (reason, g2) \<Rightarrow>
                case verification_loop rs g2 of (rs', g3) \<Rightarrow>
                  (r\<lparr>verification_status := Some ''failed'',
                     verification_reason := Some reason\<rparr> # rs', g3))
        else (case verification_loop rs g1 of (rs', g3) \<Rightarrow> (r # rs', g3)))"

definition simulate_bank_verification :: "dataframe \<Rightarrow> rng \<Rightarrow> dataframe option \<times> rng" where
  "simulate_bank_verification df g =
     (if \<not> {''farmer_name'', ''bank_name'', ''account_number'', ''amount''} \<subseteq> set (df_columns df)
      then (None, g)
      else (let cols = set_column ''verification_reason''
                         (set_column ''verification_status'' (df_columns df));
                rows0 = map (\<lambda>r. r\<lparr>verification_status := Some ''verified'',
                                     verification_reason := None\<rparr>) (df_rows df)
            in case verification_loop rows0 g of (rows1, g') \<Rightarrow>
                 (Some \<lparr>df_columns = cols, df_rows = rows1\<rparr>, g')))"

text \<open>
  What \<open>submit_to_approver\<close> shows in the alert. \<open>No_alert\<close> is the silent return
  \<open>("", False, "")\<close>; \<open>Database_error\<close> is the \<open>except Exception\<close> branch.
\<close>

datatype submit_alert =
    No_alert
  | Access_denied
  | Submission_rejected
  | Submitted nat string real
  | Database_error py_error

text \<open>The \<open>uploader-verified-data\<close> store.\<close>

record verified_store =
  vs_filename :: string
  vs_display_filename :: "string option"

text \<open>\<open>df_to_db.to_sql('farmer_payments', conn, if_exists='append', index=False)\<close>:
  the six columns and \<open>batch_id\<close>; \<open>status\<close> takes its default, \<open>failure_reason\<close>
  is \<open>NULL\<close>.\<close>

fun to_sql :: "nat \<Rightarrow> table_row list \<Rightarrow> farmer_payment list \<Rightarrow> farmer_payment list" where
  "to_sql batch_id [] tbl = tbl"
| "to_sql batch_id (r # rs) tbl =
     to_sql batch_id rs (tbl @
       [\<lparr>fp_id = next_rowid (map fp_id tbl), fp_batch_id = batch_id,
         fp_farmer_name = farmer_name r, fp_bank_name = bank_name r,
         fp_account_number = account_number r, fp_amount = amount r,
         fp_status = Some ''pending'',
         fp_verification_status = verification_status r,
         fp_verification_reason = verification_reason r,
         fp_failure_reason = None\<rparr>])"

text \<open>
  The handler returns its alert and leaves the database in the second component.
  \<open>to_sql\<close> commits what the connection has written so far, so when
  \<open>create_invoice\<close> raises afterwards the batch and its rows stay.
\<close>

definition submit_to_approver ::
  "datetime \<Rightarrow> db \<Rightarrow> nat \<Rightarrow> table_row list \<Rightarrow> verified_store option \<Rightarrow> session option
     \<Rightarrow> string option \<Rightarrow> (py_error + submit_alert) \<times> db" where
  "submit_to_approver now d n_clicks table_data submission_data_store session_data coop_note =
     (if n_clicks = 0 \<or> table_data = [] then (Inr No_alert, d)
      else if session_data = None then (Inl TypeError, d)
      else if sd_role (the session_data) \<noteq> ''coop_uploader'' then (Inr Access_denied, d)
      else if submission_data_store = None then (Inl AttributeError, d)
      else
        (let sd = the session_data;
             display_filename =
               (case vs_display_filename (the submission_data_store) of
                  None \<Rightarrow> ''uploaded_file''
                | Some f \<Rightarrow> f)
         in if \<exists>r \<in> set table_data. verification_status r = Some ''failed''
            then (Inr Submission_rejected, d)
            else
              (let record_count = length table_data;
                   total_amount = sum_list (map amount table_data);
                   submission_timestamp = now;
                   batch_id = next_rowid (map b_id (submission_batches d));
                   d1 = d\<lparr>submission_batches := submission_batches d @
                           [\<lparr>b_id = batch_id, b_cooperative_id = sd_id sd,
                             b_filename = display_filename, b_record_count = record_count,
                             b_total_amount = total_amount,
                             b_submission_timestamp = submission_timestamp,
                             b_status = ''coop_submitted'', b_admin_notes = None,
                             b_cooperative_notes = coop_note\<rparr>]\<rparr>;
                   d2 = d1\<lparr>farmer_payments := to_sql batch_id table_data (farmer_payments d1)\<rparr>
               in (case create_invoice now d2 batch_id (sd_cooperative_name sd) record_count
                           submission_timestamp of
                     Inl e \<Rightarrow> (Inr (Database_error e), d2)
                   | Inr (d3, invoice_usd, invoice_ref) \<Rightarrow>
                       (Inr (Submitted record_count invoice_ref invoice_usd),
                        log_activity now d3 (sd_id sd) ''Data Submission (Verified)'')))))"

section \<open>Payment authorization: passphrase, then PIN\<close>

text \<open>
  A callback returns the tuple of its outputs, in the order of its \<open>Output\<close>
  declarations, or raises. An output that some branch leaves as \<open>dash.no_update\<close>
  has type \<^typ>\<open>'a upd\<close>.
\<close>

datatype display = Display_block | Display_none

datatype animation = Progress_step nat string | Final_result nat string | Blank

record payment_data =
  pd_batch_id :: nat
  pd_type :: string

record batch_data =
  bd_id :: nat
  bd_status :: string

record ipn =
  ipn_coop :: "string option"
  ipn_success :: nat
  ipn_failed :: nat
  ipn_total :: nat

text \<open>Which input fired \<open>trigger_auth_modal\<close>: \<open>ctx.triggered[0]["prop_id"]\<close> names the
  cancel button or the payment button of one batch.\<close>

datatype auth_trigger = Auth_cancel_button | Payment_button nat

text \<open>Outputs: modal \<open>is_open\<close>, authorization store, step store, the styles of the
  passphrase step, the PIN step, the Next button and the Authorize button, the two
  input values, the two alerts.\<close>

definition trigger_auth_modal ::
  "auth_trigger option
     \<Rightarrow> py_error + (bool \<times> payment_data option \<times> string \<times> display \<times> display \<times> display \<times> display
                    \<times> string \<times> string \<times> string option \<times> string option)" where
  "trigger_auth_modal triggered =
     (case triggered of
        None \<Rightarrow> Inl PreventUpdate
      | Some Auth_cancel_button \<Rightarrow>
          Inr (False, None, ''passphrase'', Display_block, Display_none, Display_block,
               Display_none, [], [], None, None)
      | Some (Payment_button index) \<Rightarrow>
          (let payment_data = \<lparr>pd_batch_id = index, pd_type = ''batch_payment''\<rparr>
           in Inr (True, Some payment_data, ''passphrase'', Display_block, Display_none,
                   Display_block, Display_none, [], [], None, None)))"

text \<open>Outputs: step store, the four styles, the passphrase alert.\<close>

definition handle_passphrase_step ::
  "(string \<Rightarrow> string) \<Rightarrow> db \<Rightarrow> nat \<Rightarrow> string \<Rightarrow> session option
     \<Rightarrow> py_error + (string \<times> display \<times> display \<times> display \<times> display \<times> string option)" where
  "handle_passphrase_step H d n_clicks passphrase session_data =
     (if n_clicks = 0 then Inl PreventUpdate
      else if session_data = None then Inl TypeError
      else if check_user_passphrase H d (sd_id (the session_data)) passphrase
      then Inr (''pin'', Display_none, Display_block, Display_none, Display_block, None)
      else Inr (''passphrase'', Display_block, Display_none, Display_block, Display_none,
                Some ''Invalid Passphrase. Please try again.''))"

text \<open>\<open>button_value\<close> is the index of the dial-pad button that was clicked. Outputs:
  the PIN store and the PIN display.\<close>

definition update_pin_from_dialpad :: "bool \<Rightarrow> string \<Rightarrow> string \<Rightarrow> py_error + (string \<times> string)" where
  "update_pin_from_dialpad any_n_clicks button_value current_pin =
     (if \<not> any_n_clicks then Inl PreventUpdate
      else (let new_pin = (if button_value = ''C'' then []
                           else if button_value = ''<'' then butlast current_pin
                           else if length current_pin < 6 then current_pin @ button_value
                           else current_pin)
            in Inr (new_pin, new_pin)))"

text \<open>
  \<open>handle_pin_step\<close> writes the audit entry and the guarded status update through
  connections of their own, each committed at once; the second component is the
  database it leaves. \<open>iloc[0, 0]\<close> raises when no batch has the id. Outputs:
  authorization modal \<open>is_open\<close>, PIN alert, \<open>batch-to-process\<close>, payment modal
  \<open>is_open\<close>, interval \<open>disabled\<close>, the animation, the PIN store, the PIN display.
\<close>

definition handle_pin_step ::
  "(string \<Rightarrow> string) \<Rightarrow> datetime \<Rightarrow> db \<Rightarrow> nat \<Rightarrow> string \<Rightarrow> payment_data option \<Rightarrow> session option
     \<Rightarrow> (py_error + (bool upd \<times> string option \<times> batch_data upd \<times> bool upd \<times> bool upd
                      \<times> animation upd \<times> string \<times> string)) \<times> db" where
  "handle_pin_step H now d n_clicks pin payment_data session_data =
     (if n_clicks = 0 \<or> payment_data = None then (Inl PreventUpdate, d)
      else if session_data = None then (Inl TypeError, d)
      else if check_user_pin H d (sd_id (the session_data)) pin
      then
        (let batch_id = pd_batch_id (the payment_data);
             d1 = log_activity now d (sd_id (the session_data)) ''Payment Authorized'';
             d2 = d1\<lparr>submission_batches :=
                       map (\<lambda>b. if b_id b = batch_id \<and> b_status b = ''coop_submitted''
                                then b\<lparr>b_status := ''pending_admin_approval''\<rparr> else b)
                           (submission_batches d1)\<rparr>
         in (case filter (\<lambda>b. b_id b = batch_id) (submission_batches d2) of
               [] \<Rightarrow> (Inl IndexError, d2)
             | b # _ \<Rightarrow>
                 (let batch_status = b_status b;
                      animation_step = Progress_step 20 (PAYMENT_STEPS ! 0);
                      new_batch_data = \<lparr>bd_id = batch_id, bd_status = batch_status\<rparr>
                  in (Inr (Put False, None, Put new_batch_data, Put True, Put False,
                           Put animation_step, [], []), d2))))
      else (Inr (No_update, Some ''Invalid PIN. Please try again.'', No_update, No_update,
                 No_update, No_update, [], []), d))"

text \<open>Outputs: the four styles, the two input values, the two alerts, the
  authorization store, the PIN store.\<close>

definition reset_auth_modal_on_close ::
  "bool \<Rightarrow> py_error + (display \<times> display \<times> display \<times> display \<times> string \<times> string
                        \<times> string option \<times> string option \<times> payment_data option \<times> string)" where
  "reset_auth_modal_on_close is_open =
     (if is_open then Inl PreventUpdate
      else Inr (Display_block, Display_none, Display_block, Display_none, [], [], None, None,
                None, []))"

section \<open>The payment pipeline\<close>

text \<open>\<open>SELECT id, verification_status, verification_reason FROM farmer_payments
  WHERE batch_id = ?\<close>\<close>

definition select_verification :: "db \<Rightarrow> nat \<Rightarrow> (nat \<times> string option \<times> string option) list" where
  "select_verification conn batch_id =
     map (\<lambda>r. (fp_id r, fp_verification_status r, fp_verification_reason r))
         (filter (\<lambda>r. fp_batch_id r = batch_id) (farmer_payments conn))"

subsection \<open>Admin recheck pass\<close>

text \<open>
  One turn of the first \<open>for\<close> loop: the tuple appended to \<open>verification_updates\<close>,
  the increment of \<open>failed_count\<close>, and the generator afterwards. The generator is
  read only when the left operand of \<open>and\<close> holds.
\<close>

definition recheck_row ::
  "nat \<times> string option \<times> string option \<Rightarrow> rng \<Rightarrow> ((string \<times> string option \<times> nat) \<times> nat) \<times> rng" where
  "recheck_row row g =
     (case row of (pid, current_v_status, current_v_reason) \<Rightarrow>
        (case (if current_v_status = Some ''verified''
               then (case random g of (x, g') \<Rightarrow> (x < 20 / 100, g'))
               else (False, g)) of
           (rolled_failure, g1) \<Rightarrow>
             if rolled_failure
             then (case choice [''Account Closed'', ''Name Mismatch'', ''Invalid Bank Code''] g1 of
                     (reason, g2) \<Rightarrow> (((''failed'', Some reason, pid), 1), g2))
             else if current_v_status = Some ''failed''
             then (let reason_text = (if truthy current_v_reason then the current_v_reason
                                      else ''Pre-verified Failed (Uncorrected)'')
                   in (((''failed'', Some reason_text, pid), 1), g1))
             else (((''verified'', None, pid), 0), g1)))"

text \<open>The loop: \<open>(verification_updates, total_count, failed_count)\<close> and the generator.\<close>

fun recheck_loop ::
  "(nat \<times> string option \<times> string option) list \<Rightarrow> rng
     \<Rightarrow> (string \<times> string option \<times> nat) list \<times> nat \<times> nat \<times> rng" where
  "recheck_loop [] g = ([], 0, 0, g)"
| "recheck_loop (row # rest) g =
     (case recheck_row row g of ((upd, f), g1) \<Rightarrow>
        (case recheck_loop rest g1 of (upds, total_count, failed_count, g2) \<Rightarrow>
           (upd # upds, Suc total_count, f + failed_count, g2)))"

text \<open>\<open>UPDATE farmer_payments SET verification_status = ?, verification_reason = ?
  WHERE id = ?\<close>, once per tuple.\<close>

definition execute_verification_update ::
  "string \<times> string option \<times> nat \<Rightarrow> farmer_payment list \<Rightarrow> farmer_payment list" where
  "execute_verification_update upd tbl =
     (case upd of (v_status, v_reason, pid) \<Rightarrow>
        map (\<lambda>r. if fp_id r = pid
                 then r\<lparr>fp_verification_status := Some v_status, fp_verification_reason := v_reason\<rparr>
                 else r) tbl)"

definition set_batch_status :: "string \<Rightarrow> nat \<Rightarrow> db \<Rightarrow> db" where
  "set_batch_status st batch_id conn =
     conn\<lparr>submission_batches :=
            map (\<lambda>b. if b_id b = batch_id then b\<lparr>b_status := st\<rparr> else b) (submission_batches conn)\<rparr>"

text \<open>
  The block under \<open>if batch_status == 'pending_admin_approval'\<close>. It commits, then
  logs; the database returned is the committed one, also when the log call raises
  for want of a session.
\<close>

definition admin_recheck ::
  "datetime \<Rightarrow> rng \<Rightarrow> db \<Rightarrow> nat \<Rightarrow> session option \<Rightarrow> py_error option \<times> db \<times> rng" where
  "admin_recheck now g conn batch_id_num session_data =
     (case recheck_loop (select_verification conn batch_id_num) g of
        (verification_updates, total_count, failed_count, g1) \<Rightarrow>
          (let c1 = conn\<lparr>farmer_payments :=
                          fold execute_verification_update verification_updates (farmer_payments conn)\<rparr>;
               c2 = set_batch_status ''verified'' batch_id_num c1
           in if session_data = None then (Some TypeError, c2, g1)
              else (None, log_activity now c2 (sd_id (the session_data)) ''Account Verification'', g1)))"

subsection \<open>Settlement pass\<close>

text \<open>One turn of the second \<open>for\<close> loop: the tuple appended to \<open>payments\<close> and
  whether it counts as a success.\<close>

definition settle_row ::
  "nat \<times> string option \<times> string option \<Rightarrow> rng \<Rightarrow> ((string \<times> string option \<times> nat) \<times> bool) \<times> rng" where
  "settle_row row g =
     (case row of (pid, v_status, v_reason) \<Rightarrow>
        if v_status = Some ''failed''
        then (((''failed'', Some (''Verification Failed: '' @ fmt_opt v_reason), pid), False), g)
        else (case random g of (x, g1) \<Rightarrow>
                if x < 95 / 100 then (((''paid'', None, pid), True), g1)
                else (case choice [''Bank Communication Timeout'', ''Daily Limit Reached'',
                                   ''System Error''] g1 of
                        (reason, g2) \<Rightarrow> (((''failed'', Some reason, pid), False), g2))))"

fun settle_loop ::
  "(nat \<times> string option \<times> string option) list \<Rightarrow> rng
     \<Rightarrow> (string \<times> string option \<times> nat) list \<times> nat \<times> nat \<times> rng" where
  "settle_loop [] g = ([], 0, 0, g)"
| "settle_loop (row # rest) g =
     (case settle_row row g of ((pay, ok), g1) \<Rightarrow>
        (case settle_loop rest g1 of (payments, success, failed, g2) \<Rightarrow>
           (pay # payments, (if ok then Suc success else success),
            (if ok then failed else Suc failed), g2)))"

text \<open>\<open>UPDATE farmer_payments SET status = ?, failure_reason = ? WHERE id = ?\<close>\<close>

definition execute_payment_update ::
  "string \<times> string option \<times> nat \<Rightarrow> farmer_payment list \<Rightarrow> farmer_payment list" where
  "execute_payment_update pay tbl =
     (case pay of (st, reason, pid) \<Rightarrow>
        map (\<lambda>r. if fp_id r = pid then r\<lparr>fp_status := Some st, fp_failure_reason := reason\<rparr> else r)
            tbl)"

text \<open>\<open>SELECT u.cooperative_name, b.filename, b.record_count, b.total_amount FROM
  submission_batches b JOIN users u ON b.cooperative_id = u.id WHERE b.id = ?\<close>,
  \<open>fetchone()\<close>.\<close>

definition select_batch_info :: "db \<Rightarrow> nat \<Rightarrow> (string option \<times> string \<times> nat \<times> real) option" where
  "select_batch_info conn batch_id =
     (case concat (map (\<lambda>b. map (\<lambda>u. (u_cooperative_name u, b_filename b, b_record_count b,
                                          b_total_amount b))
                                 (filter (\<lambda>u. b_cooperative_id b = u_id u) (users conn)))
                       (filter (\<lambda>b. b_id b = batch_id) (submission_batches conn))) of
        [] \<Rightarrow> None
      | info # _ \<Rightarrow> Some info)"

text \<open>
  From the \<open>SELECT\<close> of \<open>batch_info\<close> to the second \<open>conn.commit()\<close>. When
  \<open>create_payment_commission\<close> raises, the connection closes without a commit and
  the database is the one the block started from.
\<close>

definition settle ::
  "datetime \<Rightarrow> rng \<Rightarrow> db \<Rightarrow> nat
     \<Rightarrow> (py_error + (string option \<times> string \<times> nat \<times> real) option \<times> nat \<times> nat) \<times> db \<times> rng" where
  "settle now g conn batch_id_num =
     (let batch_info = select_batch_info conn batch_id_num;
          c1 = set_batch_status ''processed'' batch_id_num conn
      in case settle_loop (select_verification c1 batch_id_num) g of
           (payments, success, failed, g1) \<Rightarrow>
             (let c2 = c1\<lparr>farmer_payments := fold execute_payment_update payments (farmer_payments c1)\<rparr>
              in (case batch_info of
                    None \<Rightarrow> (Inr (None, success, failed), c2, g1)
                  | Some (coop_name, filename, record_count, total_amount) \<Rightarrow>
                      (let c3 = c2\<lparr>payment_history := payment_history c2 @
                                    [\<lparr>ph_id = next_rowid (map ph_id (payment_history c2)),
                                      ph_batch_id = batch_id_num, ph_cooperative_name = coop_name,
                                      ph_filename = filename, ph_record_count = record_count,
                                      ph_total_amount = total_amount,
                                      ph_processing_timestamp = now\<rparr>]\<rparr>
                       in (case create_payment_commission c3 batch_id_num coop_name total_amount of
                             Inl e \<Rightarrow> (Inl e, conn, g1)
                           | Inr (c4, commission_usd, ref_num) \<Rightarrow>
                               (Inr (batch_info, success, failed), c4, g1))))))"

subsection \<open>The callback\<close>

text \<open>The \<open>else\<close> branch of \<open>n_intervals < 4\<close>: recheck when the batch data say
  \<open>pending_admin_approval\<close>, then settlement, ledger and the outputs.\<close>

definition finalize_step ::
  "datetime \<Rightarrow> rng \<Rightarrow> db \<Rightarrow> batch_data \<Rightarrow> session option
     \<Rightarrow> (py_error + (bool upd \<times> bool upd \<times> animation upd \<times> bool upd \<times> batch_data option upd \<times> ipn upd))
        \<times> db \<times> rng" where
  "finalize_step now g d batch_data session_data =
     (let batch_id_num = bd_id batch_data;
          batch_status = bd_status batch_data
      in case (if batch_status = ''pending_admin_approval''
               then admin_recheck now g d batch_id_num session_data
               else (None, d, g)) of
           (Some e, d1, g1) \<Rightarrow> (Inl e, d1, g1)
         | (None, d1, g1) \<Rightarrow>
             (case settle now g1 d1 batch_id_num of
                (Inl e, d2, g2) \<Rightarrow> (Inl e, d2, g2)
              | (Inr (batch_info, success, failed), d2, g2) \<Rightarrow>
                  if session_data = None \<or> batch_info = None then (Inl TypeError, d2, g2)
                  else (let d3 = log_activity now d2 (sd_id (the session_data)) ''Payment Processed'';
                            ipn = \<lparr>ipn_coop = fst (the batch_info), ipn_success = success,
                                   ipn_failed = failed,
                                   ipn_total = fst (snd (snd (the batch_info)))\<rparr>;
                            result = Final_result 100 (PAYMENT_STEPS ! 4)
                        in (Inr (Put True, Put True, Put result, Put False, Put None, Put ipn),
                            d3, g2))))"

datatype payment_trigger = Payment_modal_is_open | Payment_interval | Payment_close_button

text \<open>Outputs: payment modal \<open>is_open\<close>, interval \<open>disabled\<close>, the animation, close
  button \<open>disabled\<close>, \<open>batch-to-process\<close>, the IPN store.\<close>

definition handle_payment_processing ::
  "datetime \<Rightarrow> rng \<Rightarrow> db \<Rightarrow> payment_trigger option \<Rightarrow> nat \<Rightarrow> bool \<Rightarrow> batch_data option
     \<Rightarrow> session option
     \<Rightarrow> (py_error + (bool upd \<times> bool upd \<times> animation upd \<times> bool upd \<times> batch_data option upd \<times> ipn upd))
        \<times> db \<times> rng" where
  "handle_payment_processing now g d triggered n_intervals modal_is_open batch_data session_data =
     (if triggered = None then (Inl PreventUpdate, d, g)
      else if triggered = Some Payment_modal_is_open \<and> modal_is_open
      then (Inr (No_update, Put False, No_update, Put True, No_update, No_update), d, g)
      else if triggered = Some Payment_interval \<and> batch_data \<noteq> None
      then
        (if n_intervals < 4
         then (let step_index = n_intervals;
                   progress = (step_index + 1) * 20;
                   animation_step =
                     Progress_step progress
                       (if bd_status (the batch_data) = ''pending_admin_approval''
                        then VERIFICATION_STEPS ! step_index else PAYMENT_STEPS ! step_index)
               in (Inr (Put True, Put False, Put animation_step, Put True, Put batch_data,
                        No_update), d, g))
         else finalize_step now g d (the batch_data) session_data)
      else if triggered = Some Payment_close_button
      then (Inr (Put False, Put True, Put Blank, Put True, Put None, No_update), d, g)
      else (Inr (No_update, No_update, No_update, No_update, No_update, No_update), d, g))"

section \<open>The authorization session as the browser drives it\<close>

text \<open>
  The component properties that the authorization callbacks read and write, with
  the values that \<open>app.layout\<close> and \<open>create_payment_auth_modal\<close> give them.
\<close>

record auth_ui =
  payment_auth_modal_is_open :: bool
  payment_authorization_store :: "payment_data option"
  payment_auth_step_store :: string
  passphrase_step_style :: display
  pin_step_style :: display
  auth_next_button_style :: display
  auth_authorize_button_style :: display
  auth_passphrase_input :: string
  auth_pin_input :: string
  auth_passphrase_alert :: "string option"
  auth_pin_alert :: "string option"
  pin_input_store :: string
  batch_to_process :: "batch_data option"
  payment_modal_is_open :: bool
  payment_interval_disabled :: bool
  payment_animation_placeholder :: animation

definition initial_ui :: auth_ui where
  "initial_ui =
     \<lparr>payment_auth_modal_is_open = False, payment_authorization_store = None,
      payment_auth_step_store = ''passphrase'', passphrase_step_style = Display_block,
      pin_step_style = Display_none, auth_next_button_style = Display_block,
      auth_authorize_button_style = Display_none, auth_passphrase_input = [],
      auth_pin_input = [], auth_passphrase_alert = None, auth_pin_alert = None,
      pin_input_store = [], batch_to_process = None, payment_modal_is_open = False,
      payment_interval_disabled = True, payment_animation_placeholder = Blank\<rparr>"

fun put :: "'a upd \<Rightarrow> 'a \<Rightarrow> 'a" where
  "put No_update old = old"
| "put (Put v) old = v"

text \<open>
  What the user does. A click reaches a callback only while its button is displayed:
  the Next and Authorize buttons and the dial pad live inside the authorization
  modal and carry the styles that the callbacks set. \<open>handle_pin_step\<close> itself reads
  neither the step store nor a record of the passphrase check; the order of the two
  steps rests on the Authorize button being hidden until the passphrase matched.
  \<open>Auth_modal_is_open_changed\<close> is Dash firing \<open>reset_auth_modal_on_close\<close>.
\<close>

datatype event =
    Click_payment_button nat
  | Click_cancel
  | Edit_passphrase string
  | Click_next
  | Click_pin_pad string
  | Click_authorize
  | Auth_modal_is_open_changed

text \<open>What one event shows of the session, read off the outputs of its callback.\<close>

datatype observation =
    Session_opened nat
  | Session_ended
  | Passphrase_matched
  | Payment_authorized nat
  | Nothing_observed

definition fire_trigger :: "auth_trigger \<Rightarrow> auth_ui \<times> db \<Rightarrow> observation \<times> auth_ui \<times> db" where
  "fire_trigger t s =
     (case s of (u, d) \<Rightarrow>
        (case trigger_auth_modal (Some t) of
           Inl e \<Rightarrow> (Nothing_observed, u, d)
         | Inr (is_open, store, step, s1, s2, s3, s4, v1, v2, a1, a2) \<Rightarrow>
             (if is_open \<and> store \<noteq> None then Session_opened (pd_batch_id (the store))
              else Session_ended,
              u\<lparr>payment_auth_modal_is_open := is_open, payment_authorization_store := store,
                payment_auth_step_store := step, passphrase_step_style := s1,
                pin_step_style := s2, auth_next_button_style := s3,
                auth_authorize_button_style := s4, auth_passphrase_input := v1,
                auth_pin_input := v2, auth_passphrase_alert := a1, auth_pin_alert := a2\<rparr>,
              d)))"

fun fire ::
  "(string \<Rightarrow> string) \<Rightarrow> datetime \<Rightarrow> session option \<Rightarrow> event \<Rightarrow> auth_ui \<times> db
     \<Rightarrow> observation \<times> auth_ui \<times> db" where
  "fire H now sess (Click_payment_button b) (u, d) = fire_trigger (Payment_button b) (u, d)"
| "fire H now sess Click_cancel (u, d) = fire_trigger Auth_cancel_button (u, d)"
| "fire H now sess (Edit_passphrase text) (u, d) =
     (Nothing_observed, u\<lparr>auth_passphrase_input := text\<rparr>, d)"
| "fire H now sess Click_next (u, d) =
     (if \<not> (payment_auth_modal_is_open u \<and> auth_next_button_style u = Display_block)
      then (Nothing_observed, u, d)
      else (case handle_passphrase_step H d 1 (auth_passphrase_input u) sess of
              Inl e \<Rightarrow> (Nothing_observed, u, d)
            | Inr (step, s1, s2, s3, s4, a1) \<Rightarrow>
                (if step = ''pin'' then Passphrase_matched else Nothing_observed,
                 u\<lparr>payment_auth_step_store := step, passphrase_step_style := s1,
                   pin_step_style := s2, auth_next_button_style := s3,
                   auth_authorize_button_style := s4, auth_passphrase_alert := a1\<rparr>,
                 d)))"
| "fire H now sess (Click_pin_pad button_value) (u, d) =
     (if \<not> (payment_auth_modal_is_open u \<and> pin_step_style u = Display_block)
      then (Nothing_observed, u, d)
      else (case update_pin_from_dialpad True button_value (pin_input_store u) of
              Inl e \<Rightarrow> (Nothing_observed, u, d)
            | Inr (store, shown) \<Rightarrow>
                (Nothing_observed, u\<lparr>pin_input_store := store, auth_pin_input := shown\<rparr>, d)))"
| "fire H now sess Click_authorize (u, d) =
     (if \<not> (payment_auth_modal_is_open u \<and> auth_authorize_button_style u = Display_block)
      then (Nothing_observed, u, d)
      else (case handle_pin_step H now d 1 (pin_input_store u) (payment_authorization_store u) sess of
              (Inl e, d') \<Rightarrow> (Nothing_observed, u, d')
            | (Inr (is_open, alert, batch, pay_open, disabled, anim, store, shown), d') \<Rightarrow>
                ((case batch of Put bd \<Rightarrow> Payment_authorized (bd_id bd) | No_update \<Rightarrow> Nothing_observed),
                 u\<lparr>payment_auth_modal_is_open := put is_open (payment_auth_modal_is_open u),
                   auth_pin_alert := alert,
                   batch_to_process := (case batch of Put bd \<Rightarrow> Some bd | No_update \<Rightarrow> batch_to_process u),
                   payment_modal_is_open := put pay_open (payment_modal_is_open u),
                   payment_interval_disabled := put disabled (payment_interval_disabled u),
                   payment_animation_placeholder := put anim (payment_animation_placeholder u),
                   pin_input_store := store, auth_pin_input := shown\<rparr>,
                 d')))"
| "fire H now sess Auth_modal_is_open_changed (u, d) =
     (case reset_auth_modal_on_close (payment_auth_modal_is_open u) of
        Inl e \<Rightarrow> (Nothing_observed, u, d)
      | Inr (s1, s2, s3, s4, v1, v2, a1, a2, store, pin) \<Rightarrow>
          (Session_ended,
           u\<lparr>passphrase_step_style := s1, pin_step_style := s2, auth_next_button_style := s3,
             auth_authorize_button_style := s4, auth_passphrase_input := v1, auth_pin_input := v2,
             auth_passphrase_alert := a1, auth_pin_alert := a2,
             payment_authorization_store := store, pin_input_store := pin\<rparr>,
           d))"

text \<open>The observations of a run of events, and the state it ends in.\<close>

fun run_events ::
  "(string \<Rightarrow> string) \<Rightarrow> datetime \<Rightarrow> session option \<Rightarrow> event list \<Rightarrow> auth_ui \<times> db
     \<Rightarrow> observation list \<times> auth_ui \<times> db" where
  "run_events H now sess [] s = ([], s)"
| "run_events H now sess (e # es) s =
     (case fire H now sess e s of (ob, s') \<Rightarrow>
        (case run_events H now sess es s' of (obs, s'') \<Rightarrow> (ob # obs, s'')))"

text \<open>
  The protocol of the specification, as a check of an observation list. The state
  is the session in progress: its target batch and whether its passphrase has
  matched. An authorization is accepted only in a session whose passphrase matched,
  for that session's batch, and it ends the session.
\<close>

fun two_factor :: "(nat \<times> bool) option \<Rightarrow> observation list \<Rightarrow> bool" where
  "two_factor s [] = True"
| "two_factor s (Session_opened b # obs) = two_factor (Some (b, False)) obs"
| "two_factor s (Session_ended # obs) = two_factor None obs"
| "two_factor s (Passphrase_matched # obs) = two_factor (map_option (\<lambda>(b, p). (b, True)) s) obs"
| "two_factor s (Payment_authorized b # obs) = (s = Some (b, True) \<and> two_factor None obs)"
| "two_factor s (Nothing_observed # obs) = two_factor s obs"

section \<open>Sequences of pipeline operations\<close>






section \<open>Notions used in the statements and proofs\<close>

text \<open>What the uploader pass may do to a row: the four data fields stay, and the
  verification fields are \<open>verified\<close> with no reason or \<open>failed\<close> with a reason of
  the pool.\<close>

definition verified_or_failed :: "table_row \<Rightarrow> table_row \<Rightarrow> bool" where
  "verified_or_failed r r' =
     (farmer_name r' = farmer_name r \<and> bank_name r' = bank_name r \<and>
      account_number r' = account_number r \<and> amount r' = amount r \<and>
      (verification_status r' = Some ''verified'' \<and> verification_reason r' = None \<or>
       verification_status r' = Some ''failed'' \<and>
       (\<exists>x \<in> {''Account Closed'', ''Name Mismatch'', ''Invalid Bank Code'', ''System Check Failed''}.
          verification_reason r' = Some x)))"

text \<open>The effect of one \<open>UPDATE ... WHERE id = ?\<close> on one row.\<close>

definition payment_step :: "string \<times> string option \<times> nat \<Rightarrow> farmer_payment \<Rightarrow> farmer_payment" where
  "payment_step pay r =
     (if fp_id r = snd (snd pay)
      then r\<lparr>fp_status := Some (fst pay), fp_failure_reason := fst (snd pay)\<rparr>
      else r)"

definition verification_step :: "string \<times> string option \<times> nat \<Rightarrow> farmer_payment \<Rightarrow> farmer_payment" where
  "verification_step upd r =
     (if fp_id r = snd (snd upd)
      then r\<lparr>fp_verification_status := Some (fst upd), fp_verification_reason := fst (snd upd)\<rparr>
      else r)"

text \<open>
  The link between the displayed modal and the protocol state: while the modal is
  open for a batch, a session for that batch is in progress, and the Authorize
  button is displayed only if that session's passphrase has matched.
\<close>

definition session_inv :: "auth_ui \<Rightarrow> (nat \<times> bool) option \<Rightarrow> bool" where
  "session_inv u s =
     (payment_auth_modal_is_open u \<longrightarrow>
        (\<forall>pd. payment_authorization_store u = Some pd \<longrightarrow>
           (\<exists>p. s = Some (pd_batch_id pd, p)) \<and>
           (auth_authorize_button_style u = Display_block \<longrightarrow> s = Some (pd_batch_id pd, True))))"

section \<open>Example data\<close>

text \<open>One cooperative with an uploader and an approver, and one batch of two rows.
  \<open>ex_hash\<close> stands in for the hash function in the examples.\<close>

definition ex_now :: datetime where
  "ex_now = \<lparr>year = 2025, instant = 0\<rparr>"

definition ex_hash :: "string \<Rightarrow> string" where
  "ex_hash s = CHR ''#'' # s"

definition ex_users :: "user list" where
  "ex_users =
     [\<lparr>u_id = 1, u_username = ''corecu_data'', u_password = ''#coop123'', u_role = ''coop_uploader'',
       u_cooperative_name = Some ''CORECU Ltd'', u_industry = Some ''Peas'',
       u_temp_password = None, u_passphrase = None, u_pin = None\<rparr>,
      \<lparr>u_id = 2, u_username = ''corecu_finance'', u_password = ''#coop123'',
       u_role = ''coop_approver'', u_cooperative_name = Some ''CORECU Ltd'',
       u_industry = Some ''Peas'', u_temp_password = None,
       u_passphrase = Some ''#cooppass'', u_pin = Some ''#123456''\<rparr>]"

definition ex_uploader :: session where
  "ex_uploader = \<lparr>sd_id = 1, sd_username = ''corecu_data'', sd_role = ''coop_uploader'',
                   sd_cooperative_name = Some ''CORECU Ltd''\<rparr>"

definition ex_approver :: session where
  "ex_approver = \<lparr>sd_id = 2, sd_username = ''corecu_finance'', sd_role = ''coop_approver'',
                   sd_cooperative_name = Some ''CORECU Ltd''\<rparr>"

definition ex_empty :: db where
  "ex_empty = \<lparr>users = ex_users, submission_batches = [], farmer_payments = [], invoices = [],
                payment_history = [], activity_logs = []\<rparr>"

definition ex_rows :: "table_row list" where
  "ex_rows =
     [\<lparr>farmer_name = ''Asha'', bank_name = ''NBC'', account_number = ''001'', amount = 400000,
       verification_status = Some ''verified'', verification_reason = None\<rparr>,
      \<lparr>farmer_name = ''Juma'', bank_name = ''CRDB'', account_number = ''002'', amount = 600000,
       verification_status = Some ''verified'', verification_reason = None\<rparr>]"

definition ex_rows_failed :: "table_row list" where
  "ex_rows_failed =
     [\<lparr>farmer_name = ''Asha'', bank_name = ''NBC'', account_number = ''001'', amount = 400000,
       verification_status = Some ''verified'', verification_reason = None\<rparr>,
      \<lparr>farmer_name = ''Juma'', bank_name = ''CRDB'', account_number = ''002'', amount = 600000,
       verification_status = Some ''failed'', verification_reason = Some ''Name Mismatch''\<rparr>]"

definition ex_frame :: dataframe where
  "ex_frame = \<lparr>df_columns = [''farmer_name'', ''bank_name'', ''account_number'', ''amount''],
                df_rows = ex_rows_failed\<rparr>"

definition ex_store :: verified_store where
  "ex_store = \<lparr>vs_filename = ''may.csv'', vs_display_filename = Some ''May - may.csv''\<rparr>"

text \<open>The batch as \<open>submit_to_approver\<close> leaves it, but for the activity log.\<close>

definition ex_submitted :: db where
  "ex_submitted =
     \<lparr>users = ex_users,
      submission_batches =
        [\<lparr>b_id = 1, b_cooperative_id = 1, b_filename = ''May - may.csv'', b_record_count = 2,
          b_total_amount = 1000000, b_submission_timestamp = ex_now, b_status = ''coop_submitted'',
          b_admin_notes = None, b_cooperative_notes = None\<rparr>],
      farmer_payments =
        [\<lparr>fp_id = 1, fp_batch_id = 1, fp_farmer_name = ''Asha'', fp_bank_name = ''NBC'',
          fp_account_number = ''001'', fp_amount = 400000, fp_status = Some ''pending'',
          fp_verification_status = Some ''verified'', fp_verification_reason = None,
          fp_failure_reason = None\<rparr>,
         \<lparr>fp_id = 2, fp_batch_id = 1, fp_farmer_name = ''Juma'', fp_bank_name = ''CRDB'',
          fp_account_number = ''002'', fp_amount = 600000, fp_status = Some ''pending'',
          fp_verification_status = Some ''verified'', fp_verification_reason = None,
          fp_failure_reason = None\<rparr>],
      invoices =
        [\<lparr>inv_id = 1, inv_batch_id = 1, inv_cooperative_name = Some ''CORECU Ltd'',
          inv_submission_timestamp = ex_now, inv_row_count = 2, inv_amount_usd = 3,
          inv_status = Some ''unpaid'', inv_payment_date = None,
          inv_invoice_reference = Some ''CORECU-0001-2025'',
          inv_payment_commission_usd = None, inv_payment_commission_reference = None\<rparr>],
      payment_history = [],
      activity_logs = []\<rparr>"

definition ex_pending :: db where
  "ex_pending =
     ex_submitted\<lparr>submission_batches :=
                    map (\<lambda>b. b\<lparr>b_status := ''pending_admin_approval''\<rparr>)
                        (submission_batches ex_submitted)\<rparr>"

text \<open>A batch at the recheck with one row of each kind: verified, failed with a
  reason, failed without one, and still \<open>unverified\<close>.\<close>

definition ex_mixed :: db where
  "ex_mixed =
     ex_pending\<lparr>farmer_payments :=
        [\<lparr>fp_id = 1, fp_batch_id = 1, fp_farmer_name = ''Asha'', fp_bank_name = ''NBC'',
          fp_account_number = ''001'', fp_amount = 400000, fp_status = Some ''pending'',
          fp_verification_status = Some ''verified'', fp_verification_reason = None,
          fp_failure_reason = None\<rparr>,
         \<lparr>fp_id = 2, fp_batch_id = 1, fp_farmer_name = ''Juma'', fp_bank_name = ''CRDB'',
          fp_account_number = ''002'', fp_amount = 300000, fp_status = Some ''pending'',
          fp_verification_status = Some ''failed'', fp_verification_reason = Some ''Account Closed'',
          fp_failure_reason = None\<rparr>,
         \<lparr>fp_id = 3, fp_batch_id = 1, fp_farmer_name = ''Neema'', fp_bank_name = ''NMB'',
          fp_account_number = ''003'', fp_amount = 200000, fp_status = Some ''pending'',
          fp_verification_status = Some ''failed'', fp_verification_reason = None,
          fp_failure_reason = None\<rparr>,
         \<lparr>fp_id = 4, fp_batch_id = 1, fp_farmer_name = ''Baraka'', fp_bank_name = ''NBC'',
          fp_account_number = ''004'', fp_amount = 100000, fp_status = Some ''pending'',
          fp_verification_status = Some ''unverified'', fp_verification_reason = Some ''stale'',
          fp_failure_reason = None\<rparr>]\<rparr>"

text \<open>
  A generator for two runs of the finalize step over \<open>ex_pending\<close>. First run: the
  recheck keeps row 1 (draw 0) and fails row 2 (draws 1 and 2), settlement pays
  row 1 (draw 3). Second run: settlement fails row 1 (draws 4 and 5).
\<close>

definition ex_rng :: rng where
  "ex_rng = \<lparr>draws = (\<lambda>n. if n = 1 \<or> n = 2 \<or> n = 5 then 0
                           else if n = 4 then 2 ^ 53 - 1 else 2 ^ 52),
             cursor = 0\<rparr>"

definition ex_first_run ::
  "(py_error + (bool upd \<times> bool upd \<times> animation upd \<times> bool upd \<times> batch_data option upd \<times> ipn upd))
     \<times> db \<times> rng" where
  "ex_first_run =
     finalize_step ex_now ex_rng ex_pending \<lparr>bd_id = 1, bd_status = ''pending_admin_approval''\<rparr>
       (Some ex_approver)"


text \<open>An approver authorizing batch 1 through the modal, and the pipeline after it.\<close>

definition ex_events :: "event list" where
  "ex_events =
     [Click_payment_button 1, Edit_passphrase ''cooppass'', Click_next,
      Click_pin_pad ''1'', Click_pin_pad ''2'', Click_pin_pad ''3'',
      Click_pin_pad ''4'', Click_pin_pad ''5'', Click_pin_pad ''6'', Click_authorize]"


section \<open>Basic facts\<close>

lemma choice_in_set: "xs \<noteq> [] \<Longrightarrow> fst (choice xs g) \<in> set xs"
  by (simp add: choice_def next_draw_def split: prod.splits)

lemma random_in_unit_interval: "0 \<le> fst (random g) \<and> fst (random g) < 1"
  by (simp add: random_def next_draw_def split: prod.splits)

lemma log_activity_tables [simp]:
  "users (log_activity now d uid a) = users d"
  "submission_batches (log_activity now d uid a) = submission_batches d"
  "farmer_payments (log_activity now d uid a) = farmer_payments d"
  "invoices (log_activity now d uid a) = invoices d"
  "payment_history (log_activity now d uid a) = payment_history d"
  by (simp_all add: log_activity_def Let_def)

lemma set_batch_status_tables [simp]:
  "users (set_batch_status st bid d) = users d"
  "submission_batches (set_batch_status st bid d) =
     map (\<lambda>b. if b_id b = bid then b\<lparr>b_status := st\<rparr> else b) (submission_batches d)"
  "farmer_payments (set_batch_status st bid d) = farmer_payments d"
  "invoices (set_batch_status st bid d) = invoices d"
  "payment_history (set_batch_status st bid d) = payment_history d"
  "activity_logs (set_batch_status st bid d) = activity_logs d"
  by (simp_all add: set_batch_status_def)

text \<open>Evaluation of the examples unfolds these.\<close>

lemma str_nat_examples: "str_nat (Suc 0) = ''1''" "str_nat 42 = ''42''" "str_nat 12345 = ''12345''"
  by (simp_all add: str_nat.simps digit_char_def)

lemma fmt_04d_examples:
  "fmt_04d (Suc 0) = ''0001''" "fmt_04d 42 = ''0042''" "fmt_04d 12345 = ''12345''"
  by (simp_all add: fmt_04d_def str_nat_examples numeral_3_eq_3 numeral_2_eq_2)

lemmas string_defs =
  split_def upper_def upper_char_def is_space_def digit_char_def str_nat.simps

lemmas random_defs = random_def choice_def next_draw_def

lemmas example_defs =
  ex_now_def ex_hash_def ex_users_def ex_uploader_def ex_approver_def ex_empty_def ex_rows_def
  ex_rows_failed_def ex_frame_def ex_store_def ex_submitted_def ex_pending_def ex_mixed_def
  ex_rng_def

section \<open>Uploader side\<close>

lemma verification_loop_rows:
  "\<forall>r \<in> set rs. verification_status r = Some ''verified'' \<and> verification_reason r = None \<Longrightarrow>
   list_all2 verified_or_failed rs (fst (verification_loop rs g))"
proof (induction rs arbitrary: g)
  case Nil
  then show ?case by simp
next
  case (Cons r rs)
  let ?pool = "[''Account Closed'', ''Name Mismatch'', ''Invalid Bank Code'', ''System Check Failed'']"
  obtain x g1 where x: "random g = (x, g1)" by (cases "random g")
  show ?case
  proof (cases "x < 15 / 100")
    case True
    obtain reason g2 where c: "choice ?pool g1 = (reason, g2)" by (cases "choice ?pool g1")
    have "reason \<in> set ?pool"
      using choice_in_set [of ?pool g1] c by simp
    then have "verified_or_failed r
                 (r\<lparr>verification_status := Some ''failed'', verification_reason := Some reason\<rparr>)"
      by (simp add: verified_or_failed_def)
    moreover have "list_all2 verified_or_failed rs (fst (verification_loop rs g2))"
      using Cons by simp
    ultimately show ?thesis using x c True by (auto split: prod.splits)
  next
    case False
    have "verified_or_failed r r" using Cons.prems by (simp add: verified_or_failed_def)
    moreover have "list_all2 verified_or_failed rs (fst (verification_loop rs g1))"
      using Cons by simp
    ultimately show ?thesis using x False by (auto split: prod.splits)
  qed
qed

text \<open>
  C9. On a frame that has the four required columns, the uploader verification pass
  returns a frame with the same rows in the same order, each with its farmer name,
  bank, account number and amount unchanged and its verification fields set either
  to \<open>verified\<close> with no reason or to \<open>failed\<close> with one of the four reasons of the
  pool; no column is lost.
\<close>

theorem simulate_bank_verification_frame:
  assumes "{''farmer_name'', ''bank_name'', ''account_number'', ''amount''} \<subseteq> set (df_columns df)"
  shows "\<exists>df'. fst (simulate_bank_verification df g) = Some df' \<and>
           set (df_columns df) \<subseteq> set (df_columns df') \<and>
           list_all2 verified_or_failed (df_rows df) (df_rows df')"
proof -
  let ?rows0 = "map (\<lambda>r. r\<lparr>verification_status := Some ''verified'', verification_reason := None\<rparr>)
                    (df_rows df)"
  have "list_all2 verified_or_failed ?rows0 (fst (verification_loop ?rows0 g))"
    by (rule verification_loop_rows) simp
  then have "list_all2 (\<lambda>r. verified_or_failed
                 (r\<lparr>verification_status := Some ''verified'', verification_reason := None\<rparr>))
               (df_rows df) (fst (verification_loop ?rows0 g))"
    by (simp add: list_all2_map1)
  then have "list_all2 verified_or_failed (df_rows df) (fst (verification_loop ?rows0 g))"
    by (rule list_all2_mono) (simp add: verified_or_failed_def)
  then show ?thesis using assms
    by (auto simp: simulate_bank_verification_def Let_def set_column_def split: prod.splits)
qed

theorem simulate_bank_verification_frame_witness:
  "{''farmer_name'', ''bank_name'', ''account_number'', ''amount''} \<subseteq> set (df_columns ex_frame) \<and>
   list_all2 verified_or_failed (df_rows ex_frame)
     (df_rows (the (fst (simulate_bank_verification ex_frame ex_rng))))"
proof -
  have h: "{''farmer_name'', ''bank_name'', ''account_number'', ''amount''} \<subseteq> set (df_columns ex_frame)"
    by (simp add: ex_frame_def)
  from simulate_bank_verification_frame [OF h, of ex_rng] h show ?thesis by auto
qed

lemma simulate_bank_verification_example:
  "map (\<lambda>r. (farmer_name r, verification_status r, verification_reason r))
     (df_rows (the (fst (simulate_bank_verification ex_frame ex_rng))))
   = [(''Asha'', Some ''verified'', None), (''Juma'', Some ''failed'', Some ''Account Closed'')]"
  by (simp add: simulate_bank_verification_def Let_def set_column_def random_defs example_defs)

text \<open>
  C5. When some row of the table has verification status \<open>failed\<close>,
  \<open>submit_to_approver\<close> leaves the database as it was (no batch, no rows, no
  invoice) and never reports a submission; for a clicking uploader with a stored
  upload the alert is the rejection.
\<close>

theorem submit_rejects_failed_rows:
  assumes "\<exists>r \<in> set table_data. verification_status r = Some ''failed''"
  shows "snd (submit_to_approver now d n_clicks table_data store session_data coop_note) = d \<and>
         fst (submit_to_approver now d n_clicks table_data store session_data coop_note)
           \<in> {Inr No_alert, Inl TypeError, Inr Access_denied, Inl AttributeError,
              Inr Submission_rejected} \<and>
         (0 < n_clicks \<and> session_data \<noteq> None \<and> sd_role (the session_data) = ''coop_uploader'' \<and>
          store \<noteq> None
            \<longrightarrow> fst (submit_to_approver now d n_clicks table_data store session_data coop_note)
                  = Inr Submission_rejected)"
  using assms by (auto simp: submit_to_approver_def Let_def)

theorem submit_rejects_failed_rows_witness:
  "(\<exists>r \<in> set ex_rows_failed. verification_status r = Some ''failed'') \<and>
   submit_to_approver ex_now ex_empty 1 ex_rows_failed (Some ex_store) (Some ex_uploader) None
     = (Inr Submission_rejected, ex_empty)"
proof -
  have h: "\<exists>r \<in> set ex_rows_failed. verification_status r = Some ''failed''"
    by (simp add: ex_rows_failed_def)
  have "sd_role ex_uploader = ''coop_uploader''" by (simp add: ex_uploader_def)
  with submit_rejects_failed_rows [OF h, of ex_now ex_empty 1 "Some ex_store" "Some ex_uploader" None] h
  show ?thesis by (simp add: prod_eq_iff)
qed

section \<open>Authorization protocol\<close>

lemma fire_two_factor:
  assumes "session_inv u s" and "fire H now sess e (u, d) = (ob, u', d')"
  shows "\<exists>s'. session_inv u' s' \<and> (\<forall>obs. two_factor s' obs \<longrightarrow> two_factor s (ob # obs))"
proof (cases e)
  case (Click_payment_button b)
  with assms show ?thesis
    by (auto simp: fire_trigger_def trigger_auth_modal_def session_inv_def Let_def
        intro!: exI [of _ "Some (b, False)"])
next
  case Click_cancel
  with assms show ?thesis
    by (auto simp: fire_trigger_def trigger_auth_modal_def session_inv_def Let_def
        intro!: exI [of _ "None"])
next
  case (Edit_passphrase t)
  with assms show ?thesis
    by (auto simp: session_inv_def intro!: exI [of _ s])
next
  case Click_next
  show ?thesis
  proof (cases "payment_auth_modal_is_open u \<and> auth_next_button_style u = Display_block")
    case False
    with assms Click_next show ?thesis by (auto intro!: exI [of _ s])
  next
    case True
    show ?thesis
    proof (cases "handle_passphrase_step H d 1 (auth_passphrase_input u) sess")
      case (Inl err)
      with assms Click_next True show ?thesis by (auto intro!: exI [of _ s])
    next
      case (Inr outs)
      then consider
          (match) "outs = (''pin'', Display_none, Display_block, Display_none, Display_block, None)"
        | (mismatch) "outs = (''passphrase'', Display_block, Display_none, Display_block,
                              Display_none, Some ''Invalid Passphrase. Please try again.'')"
        by (auto simp: handle_passphrase_step_def split: if_splits)
      then show ?thesis
      proof cases
        case match
        with assms(2) Click_next Inr True
        have u': "u' = u\<lparr>payment_auth_step_store := ''pin'', passphrase_step_style := Display_none,
                     pin_step_style := Display_block, auth_next_button_style := Display_none,
                     auth_authorize_button_style := Display_block, auth_passphrase_alert := None\<rparr>"
          and ob: "ob = Passphrase_matched"
          by auto
        show ?thesis
        proof (intro exI [of _ "map_option (\<lambda>(b, p). (b, True)) s"] conjI allI impI)
          show "session_inv u' (map_option (\<lambda>(b, p). (b, True)) s)"
            using assms(1) True u' by (auto simp: session_inv_def)
        next
          fix obs
          assume "two_factor (map_option (\<lambda>(b, p). (b, True)) s) obs"
          then show "two_factor s (ob # obs)" using ob by simp
        qed
      next
        case mismatch
        with assms Click_next Inr True show ?thesis
          by (auto simp: session_inv_def intro!: exI [of _ s])
      qed
    qed
  qed
next
  case (Click_pin_pad bv)
  with assms show ?thesis
    by (auto simp: session_inv_def update_pin_from_dialpad_def Let_def
        intro!: exI [of _ s] split: if_splits)
next
  case Click_authorize
  show ?thesis
  proof (cases "payment_auth_modal_is_open u \<and> auth_authorize_button_style u = Display_block")
    case False
    with assms Click_authorize show ?thesis by (auto intro!: exI [of _ s])
  next
    case True
    obtain r d2 where
      r: "handle_pin_step H now d 1 (pin_input_store u) (payment_authorization_store u) sess = (r, d2)"
      by (cases "handle_pin_step H now d 1 (pin_input_store u) (payment_authorization_store u) sess")
    show ?thesis
    proof (cases r)
      case (Inl err)
      with assms Click_authorize True r show ?thesis by (auto intro!: exI [of _ s])
    next
      case (Inr outs)
      obtain o1 o2 o3 o4 o5 o6 o7 o8 where outs: "outs = (o1, o2, o3, o4, o5, o6, o7, o8)"
        by (cases outs) auto
      show ?thesis
      proof (cases o3)
        case No_update
        with r Inr outs have "o1 = No_update"
          by (auto simp: handle_pin_step_def Let_def split: if_splits list.splits)
        with assms Click_authorize True r Inr outs No_update show ?thesis
          by (auto simp: session_inv_def intro!: exI [of _ s])
      next
        case (Put bd)
        with r Inr outs have o1: "o1 = Put False"
          and bd: "payment_authorization_store u \<noteq> None"
            "bd_id bd = pd_batch_id (the (payment_authorization_store u))"
          by (auto simp: handle_pin_step_def Let_def split: if_splits list.splits)
        from bd True assms(1) have "s = Some (bd_id bd, True)"
          by (auto simp: session_inv_def)
        with assms Click_authorize True r Inr outs Put o1 show ?thesis
          by (auto simp: session_inv_def intro!: exI [of _ None])
      qed
    qed
  qed
next
  case Auth_modal_is_open_changed
  show ?thesis
  proof (cases "payment_auth_modal_is_open u")
    case True
    with assms Auth_modal_is_open_changed show ?thesis
      by (auto simp: reset_auth_modal_on_close_def intro!: exI [of _ s])
  next
    case False
    with assms Auth_modal_is_open_changed show ?thesis
      by (auto simp: session_inv_def reset_auth_modal_on_close_def intro!: exI [of _ None])
  qed
qed

lemma run_events_two_factor:
  "session_inv u s \<Longrightarrow> two_factor s (fst (run_events H now sess es (u, d)))"
proof (induction es arbitrary: u d s)
  case Nil
  then show ?case by simp
next
  case (Cons e es)
  obtain ob u' d' where f: "fire H now sess e (u, d) = (ob, u', d')"
    by (cases "fire H now sess e (u, d)")
  from fire_two_factor [OF Cons.prems f] obtain s' where
    s': "session_inv u' s'" "\<forall>obs. two_factor s' obs \<longrightarrow> two_factor s (ob # obs)" by blast
  from Cons.IH [OF s'(1)] have "two_factor s' (fst (run_events H now sess es (u', d')))" .
  with s'(2) show ?case using f by (auto split: prod.splits)
qed

lemma initial_session_inv: "session_inv initial_ui None"
  by (simp add: session_inv_def initial_ui_def)

text \<open>Only a click on Authorize touches the database.\<close>

lemma fire_keeps_db: "e \<noteq> Click_authorize \<Longrightarrow> snd (snd (fire H now sess e (u, d))) = d"
  by (cases e)
     (auto simp: fire_trigger_def trigger_auth_modal_def reset_auth_modal_on_close_def
        split: sum.splits prod.splits)

text \<open>
  Through the displayed controls the two steps come in order. Started from the page
  as it loads, and whatever the user does, a payment is authorized only in a
  session in which the passphrase matched before, for the batch that session was
  opened for. Cancelling, at any point, leaves the database and with it the status
  of every batch unchanged, and so does the reset that follows the closing of the
  modal.
\<close>

lemma modal_sessions_follow_protocol:
  "two_factor None (fst (run_events H now sess es (initial_ui, d))) \<and>
   snd (snd (fire H now sess Click_cancel (u, d))) = d \<and>
   snd (snd (fire H now sess Auth_modal_is_open_changed (u, d))) = d"
  using run_events_two_factor [OF initial_session_inv, of H now sess es d]
    fire_keeps_db [of Click_cancel H now sess u d]
    fire_keeps_db [of Auth_modal_is_open_changed H now sess u d]
  by simp

text \<open>The protocol can be completed, and the Authorize click does nothing before
  the passphrase step.\<close>

lemma authorization_example:
  "fst (run_events ex_hash ex_now (Some ex_approver) ex_events (initial_ui, ex_submitted))
     = [Session_opened 1, Nothing_observed, Passphrase_matched, Nothing_observed, Nothing_observed,
        Nothing_observed, Nothing_observed, Nothing_observed, Nothing_observed, Payment_authorized 1]
   \<and> map b_status (submission_batches
        (snd (snd (run_events ex_hash ex_now (Some ex_approver) ex_events (initial_ui, ex_submitted)))))
     = [''pending_admin_approval'']"
  by (simp add: ex_events_def initial_ui_def fire_trigger_def trigger_auth_modal_def
      handle_passphrase_step_def check_user_passphrase_def update_pin_from_dialpad_def
      handle_pin_step_def check_user_pin_def log_activity_def next_rowid_def
      reset_auth_modal_on_close_def PAYMENT_STEPS_def Let_def example_defs)

lemma authorize_without_passphrase_example:
  "run_events ex_hash ex_now (Some ex_approver) [Click_payment_button 1, Click_authorize]
     (initial_ui, ex_submitted)
   = ([Session_opened 1, Nothing_observed],
      snd (fire ex_hash ex_now (Some ex_approver) (Click_payment_button 1) (initial_ui, ex_submitted)))"
  by (simp add: initial_ui_def fire_trigger_def trigger_auth_modal_def Let_def)

text \<open>
  C4. The claim: a session reaches the authorized outcome only after a passphrase
  match and a later PIN match in that session, and cancelling leaves the batch
  status unchanged. The second half holds (\<open>fire_keeps_db\<close>). The first half holds
  of the displayed controls only: \<open>handle_pin_step\<close> decides on the PIN alone. In a
  session just opened for batch 1, whose step store says \<open>passphrase\<close> and in which
  no passphrase was ever submitted, the call with the approver's PIN returns the
  authorized outputs, writes the audit entry \<open>Payment Authorized\<close> and moves the
  batch to \<open>pending_admin_approval\<close>.
\<close>

theorem pin_step_authorizes_without_passphrase:
  "trigger_auth_modal (Some (Payment_button 1))
     = Inr (True, Some \<lparr>pd_batch_id = 1, pd_type = ''batch_payment''\<rparr>, ''passphrase'',
            Display_block, Display_none, Display_block, Display_none, [], [], None, None) \<and>
   fst (handle_pin_step ex_hash ex_now ex_submitted 1 ''123456''
          (Some \<lparr>pd_batch_id = 1, pd_type = ''batch_payment''\<rparr>) (Some ex_approver))
     = Inr (Put False, None, Put \<lparr>bd_id = 1, bd_status = ''pending_admin_approval''\<rparr>, Put True,
            Put False, Put (Progress_step 20 ''Initiating Capital Pay secure engine...''), [], []) \<and>
   map b_status (submission_batches
     (snd (handle_pin_step ex_hash ex_now ex_submitted 1 ''123456''
             (Some \<lparr>pd_batch_id = 1, pd_type = ''batch_payment''\<rparr>) (Some ex_approver))))
     = [''pending_admin_approval''] \<and>
   map log_action (activity_logs
     (snd (handle_pin_step ex_hash ex_now ex_submitted 1 ''123456''
             (Some \<lparr>pd_batch_id = 1, pd_type = ''batch_payment''\<rparr>) (Some ex_approver))))
     = [''Payment Authorized'']"
  by (simp add: trigger_auth_modal_def handle_pin_step_def check_user_pin_def log_activity_def
      next_rowid_def PAYMENT_STEPS_def Let_def example_defs)

section \<open>Batch status\<close>

lemma admin_recheck_tables:
  "users (fst (snd (admin_recheck now g d bid sess))) = users d"
  "submission_batches (fst (snd (admin_recheck now g d bid sess))) =
     map (\<lambda>b. if b_id b = bid then b\<lparr>b_status := ''verified''\<rparr> else b) (submission_batches d)"
  "invoices (fst (snd (admin_recheck now g d bid sess))) = invoices d"
  "payment_history (fst (snd (admin_recheck now g d bid sess))) = payment_history d"
  by (simp_all add: admin_recheck_def Let_def split: prod.splits)

lemma create_payment_commission_tables:
  assumes "create_payment_commission c bid coop amt = Inr (c', usd, ref)"
  shows "users c' = users c" "submission_batches c' = submission_batches c"
    "farmer_payments c' = farmer_payments c" "payment_history c' = payment_history c"
    "activity_logs c' = activity_logs c"
  using assms by (auto simp: create_payment_commission_def Let_def split: sum.splits)










text \<open>A tick writes nothing.\<close>

lemma tick_keeps_db:
  "n < 4 \<Longrightarrow> snd (handle_payment_processing now g d trig n is_open bd sess) = (d, g)"
  by (simp add: handle_payment_processing_def Let_def)




lemmas pipeline_defs =
  handle_pin_step_def check_user_pin_def handle_payment_processing_def finalize_step_def
  admin_recheck_def recheck_row_def execute_verification_update_def settle_def settle_row_def
  execute_payment_update_def select_verification_def select_batch_info_def set_batch_status_def
  create_payment_commission_def coop_short_def log_activity_def next_rowid_def
  PAYMENT_COMMISSION_RATE_def EXCHANGE_RATE_TSH_TO_USD_def PAYMENT_STEPS_def VERIFICATION_STEPS_def



section \<open>Row updates keyed by id\<close>

lemma fold_map_pointwise: "fold (\<lambda>u. map (f u)) us tbl = map (\<lambda>r. fold f us r) tbl"
  by (induction us arbitrary: tbl) (simp_all add: comp_def)

lemma keyed_fold_miss:
  assumes "\<And>u r. key r \<noteq> k u \<Longrightarrow> f u r = r" and "\<forall>u \<in> set us. key r \<noteq> k u"
  shows "fold f us r = r"
  using assms(2) by (induction us) (simp_all add: assms(1))

text \<open>With one update per key, a row takes the update that carries its key.\<close>

lemma keyed_fold_hit:
  assumes key: "\<And>u r. key (f u r) = key r"
    and miss: "\<And>u r. key r \<noteq> k u \<Longrightarrow> f u r = r"
  shows "distinct (map k us) \<Longrightarrow> u \<in> set us \<Longrightarrow> key r = k u \<Longrightarrow> fold f us r = f u r"
proof (induction us arbitrary: r)
  case Nil
  then show ?case by simp
next
  case (Cons a us)
  show ?case
  proof (cases "a = u")
    case True
    from Cons.prems have "\<forall>v \<in> set us. key (f u r) \<noteq> k v"
      using True by (auto simp: key)
    with miss have "fold f us (f u r) = f u r"
      by (intro keyed_fold_miss [where key = key and k = k]) auto
    with True show ?thesis by simp
  next
    case False
    with Cons.prems have u: "u \<in> set us" and "k a \<noteq> k u" by auto
    with Cons.prems have "f a r = r" by (simp add: miss)
    with Cons.IH [of r] Cons.prems u show ?thesis by simp
  qed
qed

lemma execute_payment_update_step: "execute_payment_update = (\<lambda>pay. map (payment_step pay))"
  by (auto simp: execute_payment_update_def payment_step_def fun_eq_iff)

lemma execute_verification_update_step:
  "execute_verification_update = (\<lambda>upd. map (verification_step upd))"
  by (auto simp: execute_verification_update_def verification_step_def fun_eq_iff)

lemma select_verification_ids:
  "map fst (select_verification d bid) =
     map fp_id (filter (\<lambda>r. fp_batch_id r = bid) (farmer_payments d))"
  by (simp add: select_verification_def comp_def)

lemma select_verification_distinct:
  "distinct (map fp_id (farmer_payments d)) \<Longrightarrow> distinct (map fst (select_verification d bid))"
  by (simp add: select_verification_ids distinct_map_filter)

section \<open>Settlement pass\<close>

lemma settle_row_pid: "snd (snd (fst (fst (settle_row row g)))) = fst row"
  by (auto simp: settle_row_def split: prod.splits)

lemma settle_loop_pids: "map (snd \<circ> snd) (fst (settle_loop rows g)) = map fst rows"
proof (induction rows arbitrary: g)
  case Nil
  then show ?case by simp
next
  case (Cons row rows)
  obtain pay ok g1 where r: "settle_row row g = ((pay, ok), g1)"
    by (cases "settle_row row g") auto
  with settle_row_pid [of row g] have "snd (snd pay) = fst row" by simp
  with r Cons.IH [of g1] show ?case by (auto split: prod.splits)
qed

lemma settle_loop_failed:
  "(pid, Some ''failed'', vr) \<in> set rows \<Longrightarrow>
   (''failed'', Some (''Verification Failed: '' @ fmt_opt vr), pid) \<in> set (fst (settle_loop rows g))"
proof (induction rows arbitrary: g)
  case Nil
  then show ?case by simp
next
  case (Cons row rows)
  obtain pay ok g1 where r: "settle_row row g = ((pay, ok), g1)"
    by (cases "settle_row row g") auto
  show ?case
  proof (cases "row = (pid, Some ''failed'', vr)")
    case True
    with r have "pay = (''failed'', Some (''Verification Failed: '' @ fmt_opt vr), pid)"
      by (simp add: settle_row_def)
    with r show ?thesis by (auto split: prod.splits)
  next
    case False
    with Cons.prems have "(pid, Some ''failed'', vr) \<in> set rows" by simp
    from Cons.IH [OF this, of g1] r show ?thesis by (auto split: prod.splits)
  qed
qed

lemma settle_farmer_payments:
  assumes "settle now g d bid = (Inr res, d', g')"
  shows "farmer_payments d' =
           map (\<lambda>r. fold payment_step (fst (settle_loop (select_verification d bid) g)) r)
               (farmer_payments d)"
proof -
  have sel: "select_verification (set_batch_status ''processed'' bid d) bid = select_verification d bid"
    by (simp add: select_verification_def)
  from assms show ?thesis
    by (auto simp: settle_def Let_def sel create_payment_commission_tables
        execute_payment_update_step fold_map_pointwise
        split: prod.splits option.splits sum.splits)
qed

text \<open>
  C2. In a table with one row per id, when the settlement pass over a batch
  completes, every row of the batch whose verification status was \<open>failed\<close> is the
  same row with settlement status \<open>failed\<close> (never \<open>paid\<close>) and failure reason
  \<open>Verification Failed: \<close> followed by its verification reason as the f-string prints
  it; no draw of the generator enters.
\<close>

theorem failed_verification_fails_settlement:
  assumes "distinct (map fp_id (farmer_payments d))"
    and "settle now g d bid = (Inr res, d', g')"
  shows "list_all2
           (\<lambda>r r'. fp_batch_id r = bid \<and> fp_verification_status r = Some ''failed'' \<longrightarrow>
                    r' = r\<lparr>fp_status := Some ''failed'',
                           fp_failure_reason :=
                             Some (''Verification Failed: '' @ fmt_opt (fp_verification_reason r))\<rparr>)
           (farmer_payments d) (farmer_payments d')"
proof -
  let ?pays = "fst (settle_loop (select_verification d bid) g)"
  have dist: "distinct (map (snd \<circ> snd) ?pays)"
    using assms(1) by (simp add: settle_loop_pids select_verification_distinct)
  have "fold payment_step ?pays r =
          r\<lparr>fp_status := Some ''failed'',
            fp_failure_reason := Some (''Verification Failed: '' @ fmt_opt (fp_verification_reason r))\<rparr>"
    if r: "r \<in> set (farmer_payments d)" "fp_batch_id r = bid"
      "fp_verification_status r = Some ''failed''"
    for r
  proof -
    let ?pay = "(''failed'', Some (''Verification Failed: '' @ fmt_opt (fp_verification_reason r)),
                 fp_id r)"
    from r have "(fp_id r, Some ''failed'', fp_verification_reason r) \<in> set (select_verification d bid)"
      by (force simp: select_verification_def)
    then have "?pay \<in> set ?pays" by (rule settle_loop_failed)
    with dist have "fold payment_step ?pays r = payment_step ?pay r"
      by (intro keyed_fold_hit [where key = fp_id and k = "snd \<circ> snd"])
         (auto simp: payment_step_def)
    then show ?thesis by (simp add: payment_step_def)
  qed
  then show ?thesis
    by (simp add: settle_farmer_payments [OF assms(2)] list_all2_map2 list_all2_same)
qed

lemma settle_example:
  "fst (settle ex_now ex_rng ex_mixed 1)
     = Inr (Some (Some ''CORECU Ltd'', ''May - may.csv'', 2, 1000000), 2, 2) \<and>
   map (\<lambda>r. (fp_id r, fp_status r, fp_failure_reason r))
     (farmer_payments (fst (snd (settle ex_now ex_rng ex_mixed 1))))
     = [(1, Some ''paid'', None),
        (2, Some ''failed'', Some ''Verification Failed: Account Closed''),
        (3, Some ''failed'', Some ''Verification Failed: None''),
        (4, Some ''paid'', None)]"
  by (simp add: pipeline_defs string_defs random_defs example_defs Let_def)

theorem failed_verification_fails_settlement_witness:
  "distinct (map fp_id (farmer_payments ex_mixed)) \<and>
   fst (settle ex_now ex_rng ex_mixed 1)
     = Inr (Some (Some ''CORECU Ltd'', ''May - may.csv'', 2, 1000000), 2, 2) \<and>
   list_all2
     (\<lambda>r r'. fp_batch_id r = 1 \<and> fp_verification_status r = Some ''failed'' \<longrightarrow>
              r' = r\<lparr>fp_status := Some ''failed'',
                     fp_failure_reason :=
                       Some (''Verification Failed: '' @ fmt_opt (fp_verification_reason r))\<rparr>)
     (farmer_payments ex_mixed) (farmer_payments (fst (snd (settle ex_now ex_rng ex_mixed 1))))"
proof -
  have h: "distinct (map fp_id (farmer_payments ex_mixed))"
    by (simp add: example_defs)
  obtain d' g' where
    s: "settle ex_now ex_rng ex_mixed 1
          = (Inr (Some (Some ''CORECU Ltd'', ''May - may.csv'', 2, 1000000), 2, 2), d', g')"
    using settle_example by (cases "settle ex_now ex_rng ex_mixed 1") auto
  from failed_verification_fails_settlement [OF h s] h s show ?thesis by simp
qed

section \<open>Admin recheck pass\<close>

lemma recheck_row_pid: "snd (snd (fst (fst (recheck_row row g)))) = fst row"
  by (auto simp: recheck_row_def Let_def split: prod.splits)

lemma recheck_loop_pids: "map (snd \<circ> snd) (fst (recheck_loop rows g)) = map fst rows"
proof (induction rows arbitrary: g)
  case Nil
  then show ?case by simp
next
  case (Cons row rows)
  obtain upd f g1 where r: "recheck_row row g = ((upd, f), g1)"
    by (cases "recheck_row row g") auto
  with recheck_row_pid [of row g] have "snd (snd upd) = fst row" by simp
  with r Cons.IH [of g1] show ?case by (auto split: prod.splits)
qed

text \<open>A row that is not \<open>verified\<close> is decided without the generator.\<close>

lemma recheck_row_not_verified:
  "st \<noteq> Some ''verified'' \<Longrightarrow>
   recheck_row (pid, st, vr) g =
     (if st = Some ''failed''
      then (((''failed'', Some (if truthy vr then the vr else ''Pre-verified Failed (Uncorrected)''),
              pid), 1), g)
      else (((''verified'', None, pid), 0), g))"
  by (simp add: recheck_row_def Let_def)

lemma recheck_loop_not_verified:
  "(pid, st, vr) \<in> set rows \<Longrightarrow> st \<noteq> Some ''verified'' \<Longrightarrow>
   fst (fst (recheck_row (pid, st, vr) g0)) \<in> set (fst (recheck_loop rows g))"
proof (induction rows arbitrary: g)
  case Nil
  then show ?case by simp
next
  case (Cons row rows)
  obtain upd f g1 where r: "recheck_row row g = ((upd, f), g1)"
    by (cases "recheck_row row g") auto
  show ?case
  proof (cases "row = (pid, st, vr)")
    case True
    with r Cons.prems(2) have "upd = fst (fst (recheck_row (pid, st, vr) g0))"
      by (simp add: recheck_row_not_verified split: if_splits)
    with r show ?thesis by (auto split: prod.splits)
  next
    case False
    with Cons.prems have "(pid, st, vr) \<in> set rows" by simp
    from Cons.IH [OF this Cons.prems(2), of g1] r show ?thesis by (auto split: prod.splits)
  qed
qed

lemma admin_recheck_farmer_payments:
  "farmer_payments (fst (snd (admin_recheck now g d bid sess))) =
     map (\<lambda>r. fold verification_step (fst (recheck_loop (select_verification d bid) g)) r)
         (farmer_payments d)"
  by (auto simp: admin_recheck_def Let_def execute_verification_update_step fold_map_pointwise
      split: prod.splits)

lemma recheck_fold_not_verified:
  assumes "distinct (map fp_id (farmer_payments d))"
    and "r \<in> set (farmer_payments d)" and "fp_batch_id r = bid"
    and "fp_verification_status r \<noteq> Some ''verified''"
  shows "fold verification_step (fst (recheck_loop (select_verification d bid) g)) r =
           verification_step
             (fst (fst (recheck_row (fp_id r, fp_verification_status r, fp_verification_reason r) g))) r"
proof -
  let ?upds = "fst (recheck_loop (select_verification d bid) g)"
  let ?upd = "fst (fst (recheck_row (fp_id r, fp_verification_status r, fp_verification_reason r) g))"
  have dist: "distinct (map (snd \<circ> snd) ?upds)"
    using assms(1) by (simp add: recheck_loop_pids select_verification_distinct)
  from assms have "(fp_id r, fp_verification_status r, fp_verification_reason r)
                     \<in> set (select_verification d bid)"
    by (force simp: select_verification_def)
  then have "?upd \<in> set ?upds" using assms(4) by (rule recheck_loop_not_verified)
  moreover have "snd (snd ?upd) = fp_id r"
    using recheck_row_pid [of "(fp_id r, fp_verification_status r, fp_verification_reason r)" g]
    by simp
  ultimately show ?thesis using dist
    by (intro keyed_fold_hit [where key = fp_id and k = "snd \<circ> snd"])
       (auto simp: verification_step_def)
qed

text \<open>
  C6. In a table with one row per id, the admin recheck pass leaves every row of
  the batch that enters it \<open>failed\<close> as it is but for the reason: verification
  status stays \<open>failed\<close>, a reason that is present (not \<open>NULL\<close>, not empty) is kept,
  and otherwise the reason becomes \<open>Pre-verified Failed (Uncorrected)\<close>.
\<close>

theorem recheck_keeps_failed_rows_failed:
  assumes "distinct (map fp_id (farmer_payments d))"
  shows "list_all2
           (\<lambda>r r'. fp_batch_id r = bid \<and> fp_verification_status r = Some ''failed'' \<longrightarrow>
                    fp_verification_status r' = Some ''failed'' \<and>
                    r' = r\<lparr>fp_verification_reason :=
                             (case fp_verification_reason r of
                                None \<Rightarrow> Some ''Pre-verified Failed (Uncorrected)''
                              | Some x \<Rightarrow> if x = [] then Some ''Pre-verified Failed (Uncorrected)''
                                          else Some x)\<rparr>)
           (farmer_payments d) (farmer_payments (fst (snd (admin_recheck now g d bid sess))))"
proof -
  have "fold verification_step (fst (recheck_loop (select_verification d bid) g)) r =
          r\<lparr>fp_verification_reason :=
               (case fp_verification_reason r of
                  None \<Rightarrow> Some ''Pre-verified Failed (Uncorrected)''
                | Some x \<Rightarrow> if x = [] then Some ''Pre-verified Failed (Uncorrected)'' else Some x)\<rparr>"
    if r: "r \<in> set (farmer_payments d)" "fp_batch_id r = bid"
      "fp_verification_status r = Some ''failed''"
    for r
    using recheck_fold_not_verified [OF assms r(1,2), of g] r(3)
    by (cases "fp_verification_reason r")
       (auto simp: recheck_row_not_verified verification_step_def)
  then show ?thesis
    by (simp add: admin_recheck_farmer_payments list_all2_map2 list_all2_same)
qed

lemma admin_recheck_example:
  "map (\<lambda>r. (fp_id r, fp_verification_status r, fp_verification_reason r))
     (farmer_payments (fst (snd (admin_recheck ex_now ex_rng ex_mixed 1 (Some ex_approver)))))
     = [(1, Some ''verified'', None),
        (2, Some ''failed'', Some ''Account Closed''),
        (3, Some ''failed'', Some ''Pre-verified Failed (Uncorrected)''),
        (4, Some ''verified'', None)]"
  by (simp add: pipeline_defs random_defs example_defs Let_def)

theorem recheck_keeps_failed_rows_failed_witness:
  "distinct (map fp_id (farmer_payments ex_mixed)) \<and>
   list_all2
     (\<lambda>r r'. fp_batch_id r = 1 \<and> fp_verification_status r = Some ''failed'' \<longrightarrow>
              fp_verification_status r' = Some ''failed'' \<and>
              r' = r\<lparr>fp_verification_reason :=
                       (case fp_verification_reason r of
                          None \<Rightarrow> Some ''Pre-verified Failed (Uncorrected)''
                        | Some x \<Rightarrow> if x = [] then Some ''Pre-verified Failed (Uncorrected)''
                                    else Some x)\<rparr>)
     (farmer_payments ex_mixed)
     (farmer_payments (fst (snd (admin_recheck ex_now ex_rng ex_mixed 1 (Some ex_approver)))))"
proof -
  have h: "distinct (map fp_id (farmer_payments ex_mixed))"
    by (simp add: example_defs)
  from recheck_keeps_failed_rows_failed [OF h, of 1 ex_now ex_rng "Some ex_approver"] h
  show ?thesis by simp
qed

text \<open>
  C10. In a table with one row per id, the admin recheck pass turns every row of the
  batch whose verification status is neither \<open>verified\<close> nor \<open>failed\<close> into the same
  row with status \<open>verified\<close> and no reason; deciding such a row leaves the
  generator where it was.
\<close>

theorem recheck_verifies_other_statuses:
  assumes "distinct (map fp_id (farmer_payments d))"
  shows "list_all2
           (\<lambda>r r'. fp_batch_id r = bid \<and> fp_verification_status r \<noteq> Some ''verified'' \<and>
                    fp_verification_status r \<noteq> Some ''failed'' \<longrightarrow>
                    r' = r\<lparr>fp_verification_status := Some ''verified'',
                           fp_verification_reason := None\<rparr> \<and>
                    snd (recheck_row (fp_id r, fp_verification_status r, fp_verification_reason r) g0)
                      = g0)
           (farmer_payments d) (farmer_payments (fst (snd (admin_recheck now g d bid sess))))"
proof -
  have "fold verification_step (fst (recheck_loop (select_verification d bid) g)) r =
          r\<lparr>fp_verification_status := Some ''verified'', fp_verification_reason := None\<rparr>"
    if r: "r \<in> set (farmer_payments d)" "fp_batch_id r = bid"
      "fp_verification_status r \<noteq> Some ''verified''" "fp_verification_status r \<noteq> Some ''failed''"
    for r
    using recheck_fold_not_verified [OF assms r(1,2,3), of g] r(3,4)
    by (simp add: recheck_row_not_verified verification_step_def)
  then show ?thesis
    by (simp add: admin_recheck_farmer_payments list_all2_map2 list_all2_same
        recheck_row_not_verified)
qed

theorem recheck_verifies_other_statuses_witness:
  "distinct (map fp_id (farmer_payments ex_mixed)) \<and>
   list_all2
     (\<lambda>r r'. fp_batch_id r = 1 \<and> fp_verification_status r \<noteq> Some ''verified'' \<and>
              fp_verification_status r \<noteq> Some ''failed'' \<longrightarrow>
              r' = r\<lparr>fp_verification_status := Some ''verified'', fp_verification_reason := None\<rparr> \<and>
              snd (recheck_row (fp_id r, fp_verification_status r, fp_verification_reason r) ex_rng)
                = ex_rng)
     (farmer_payments ex_mixed)
     (farmer_payments (fst (snd (admin_recheck ex_now ex_rng ex_mixed 1 (Some ex_approver)))))"
proof -
  have h: "distinct (map fp_id (farmer_payments ex_mixed))"
    by (simp add: example_defs)
  from recheck_verifies_other_statuses [OF h, of 1 ex_rng ex_now ex_rng "Some ex_approver"] h
  show ?thesis by simp
qed

section \<open>Ledger\<close>

text \<open>
  C7. When \<open>submit_to_approver\<close> reports a submission, it has appended exactly one
  invoice: for the new batch, with \<open>amount_usd\<close> the number of rows times 1.50,
  status \<open>unpaid\<close>, no commission yet, and reference \<open>SHORT-seq-year\<close> where
  \<open>SHORT\<close> is the first whitespace-delimited token of the session's cooperative
  name in upper case, \<open>seq\<close> is one more than the number of invoices that
  cooperative had, printed with \<open>04d\<close>, and \<open>year\<close> is the clock's year. The
  cooperative then has one invoice more, so its next sequence number is larger.
\<close>

theorem invoice_at_submission:
  assumes "submit_to_approver now d n_clicks table_data store session_data coop_note
             = (Inr (Submitted k ref usd), d')"
  shows "\<exists>name tok rest inv.
           sd_cooperative_name (the session_data) = Some name \<and> split name = tok # rest \<and>
           invoices d' = invoices d @ [inv] \<and>
           inv_batch_id inv = next_rowid (map b_id (submission_batches d)) \<and>
           inv_cooperative_name inv = Some name \<and>
           inv_row_count inv = length table_data \<and>
           inv_amount_usd inv = real (length table_data) * (150 / 100) \<and>
           inv_status inv = Some ''unpaid'' \<and>
           inv_invoice_reference inv =
             Some (upper tok @ ''-'' @
                   fmt_04d (length (filter (\<lambda>i. inv_cooperative_name i = Some name) (invoices d)) + 1)
                   @ ''-'' @ str_nat (year now)) \<and>
           inv_payment_commission_usd inv = None \<and>
           length (filter (\<lambda>i. inv_cooperative_name i = Some name) (invoices d'))
             = length (filter (\<lambda>i. inv_cooperative_name i = Some name) (invoices d)) + 1 \<and>
           k = length table_data \<and> usd = inv_amount_usd inv \<and> Some ref = inv_invoice_reference inv"
  using assms
  by (auto simp: submit_to_approver_def Let_def create_invoice_def coop_short_def
      COST_PER_ROW_USD_def
      split: if_splits sum.splits option.splits list.splits)

lemma submit_example:
  "fst (submit_to_approver ex_now ex_empty 1 ex_rows (Some ex_store) (Some ex_uploader) None)
     = Inr (Submitted 2 ''CORECU-0001-2025'' 3) \<and>
   map (\<lambda>i. (inv_batch_id i, inv_amount_usd i, inv_status i, inv_invoice_reference i))
     (invoices (snd (submit_to_approver ex_now ex_empty 1 ex_rows (Some ex_store)
                       (Some ex_uploader) None)))
     = [(1, 3, Some ''unpaid'', Some ''CORECU-0001-2025'')]"
  by (simp add: submit_to_approver_def create_invoice_def coop_short_def log_activity_def
      next_rowid_def COST_PER_ROW_USD_def fmt_04d_examples split_def upper_def upper_char_def
      is_space_def digit_char_def str_nat.simps example_defs Let_def)

theorem invoice_at_submission_witness:
  "fst (submit_to_approver ex_now ex_empty 1 ex_rows (Some ex_store) (Some ex_uploader) None)
     = Inr (Submitted 2 ''CORECU-0001-2025'' 3) \<and>
   map inv_amount_usd
     (invoices (snd (submit_to_approver ex_now ex_empty 1 ex_rows (Some ex_store)
                       (Some ex_uploader) None)))
     = [real (length ex_rows) * (150 / 100)]"
proof -
  obtain d' where
    s: "submit_to_approver ex_now ex_empty 1 ex_rows (Some ex_store) (Some ex_uploader) None
          = (Inr (Submitted 2 ''CORECU-0001-2025'' 3), d')"
    using submit_example
    by (cases "submit_to_approver ex_now ex_empty 1 ex_rows (Some ex_store) (Some ex_uploader) None")
       auto
  from invoice_at_submission [OF s] obtain inv where
    "invoices d' = invoices ex_empty @ [inv]"
    "inv_amount_usd inv = real (length ex_rows) * (150 / 100)"
    by blast
  with s show ?thesis by (simp add: ex_empty_def)
qed

text \<open>One hundred rows are invoiced 150.00.\<close>

lemma invoice_of_100_rows:
  "map_sum id (\<lambda>r. (fst (snd r), snd (snd r)))
     (create_invoice ex_now ex_empty 7 (Some ''CORECU Ltd'') 100 ex_now)
   = Inr (150, ''CORECU-0001-2025'')"
  by (simp add: create_invoice_def coop_short_def COST_PER_ROW_USD_def fmt_04d_examples
      split_def upper_def upper_char_def is_space_def digit_char_def str_nat.simps
      example_defs Let_def)

lemma select_batch_info_status:
  assumes "users d1 = users d"
    and "submission_batches d1 =
           map (\<lambda>b. if b_id b = bid then b\<lparr>b_status := st\<rparr> else b) (submission_batches d)"
  shows "select_batch_info d1 bid' = select_batch_info d bid'"
proof -
  have "map (\<lambda>b. map (\<lambda>u. (u_cooperative_name u, b_filename b, b_record_count b, b_total_amount b))
                     (filter (\<lambda>u. b_cooperative_id b = u_id u) us))
            (filter (\<lambda>b. b_id b = bid')
               (map (\<lambda>b. if b_id b = bid then b\<lparr>b_status := st\<rparr> else b) bs))
        = map (\<lambda>b. map (\<lambda>u. (u_cooperative_name u, b_filename b, b_record_count b, b_total_amount b))
                     (filter (\<lambda>u. b_cooperative_id b = u_id u) us))
            (filter (\<lambda>b. b_id b = bid') bs)" for bs us
    by (induction bs) auto
  note h = this [of "users d" "submission_batches d"]
  show ?thesis unfolding select_batch_info_def assms h ..
qed

lemma settle_invoices:
  assumes "settle now g d bid = (Inr (Some info, success, failed), d', g')"
  shows "\<exists>coop fn rc amt tok rest.
           select_batch_info d bid = Some (Some coop, fn, rc, amt) \<and>
           info = (Some coop, fn, rc, amt) \<and> split coop = tok # rest \<and>
           invoices d' =
             map (\<lambda>i. if inv_batch_id i = bid
                      then i\<lparr>inv_payment_commission_usd := Some (amt * (25 / 1000) / 2500),
                             inv_payment_commission_reference :=
                               Some (''CP-PAY-'' @ upper tok @ ''-'' @ str_nat bid)\<rparr>
                      else i) (invoices d)"
  using assms
  by (auto simp: settle_def Let_def create_payment_commission_def coop_short_def
      PAYMENT_COMMISSION_RATE_def EXCHANGE_RATE_TSH_TO_USD_def
      split: prod.splits option.splits sum.splits list.splits)

lemma finalize_step_recheck:
  assumes "(if bd_status bd = ''pending_admin_approval''
            then admin_recheck now g d (bd_id bd) session_data else (None, d, g)) = (e1, d1, g1)"
  shows "select_batch_info d1 (bd_id bd) = select_batch_info d (bd_id bd)"
    and "invoices d1 = invoices d" and "payment_history d1 = payment_history d"
proof -
  show "select_batch_info d1 (bd_id bd) = select_batch_info d (bd_id bd)"
  proof (cases "bd_status bd = ''pending_admin_approval''")
    case True
    with assms have "d1 = fst (snd (admin_recheck now g d (bd_id bd) session_data))" by simp
    then show ?thesis
      by (intro select_batch_info_status [where st = "''verified''" and bid = "bd_id bd"])
         (simp_all add: admin_recheck_tables)
  next
    case False
    with assms show ?thesis by simp
  qed
  show "invoices d1 = invoices d"
    using assms admin_recheck_tables(3) [of now g d "bd_id bd" session_data]
    by (auto split: if_splits)
  show "payment_history d1 = payment_history d"
    using assms admin_recheck_tables(4) [of now g d "bd_id bd" session_data]
    by (auto split: if_splits)
qed

text \<open>
  C8. When the finalize step completes, the batch has an uploader with a
  cooperative name, and the invoices are the old ones with, on the invoice of the
  batch and on no other, the commission set to the batch's \<open>total_amount\<close> times
  0.025 divided by 2500 and the commission reference set to \<open>CP-PAY-SHORT-id\<close>,
  \<open>SHORT\<close> the first token of the cooperative name in upper case and \<open>id\<close> the
  batch id in decimal. One finalize step writes them once. Amounts are exact reals.
\<close>

theorem commission_at_settlement:
  assumes "finalize_step now g d bd session_data = (Inr out, d', g')"
  shows "\<exists>coop fn rc amt tok rest.
           select_batch_info d (bd_id bd) = Some (Some coop, fn, rc, amt) \<and>
           split coop = tok # rest \<and>
           invoices d' =
             map (\<lambda>i. if inv_batch_id i = bd_id bd
                      then i\<lparr>inv_payment_commission_usd := Some (amt * (25 / 1000) / 2500),
                             inv_payment_commission_reference :=
                               Some (''CP-PAY-'' @ upper tok @ ''-'' @ str_nat (bd_id bd))\<rparr>
                      else i) (invoices d)"
proof -
  obtain e1 d1 g1 where a: "(if bd_status bd = ''pending_admin_approval''
               then admin_recheck now g d (bd_id bd) session_data else (None, d, g)) = (e1, d1, g1)"
    by (rule prod_cases3)
  note d1 = finalize_step_recheck [OF a]
  from assms a obtain info success failed d2 where
    s: "settle now g1 d1 (bd_id bd) = (Inr (Some info, success, failed), d2, g')"
    and d': "invoices d' = invoices d2"
    by (auto simp: finalize_step_def Let_def split: prod.splits option.splits sum.splits if_splits)
  from settle_invoices [OF s] d1 d' show ?thesis by auto
qed

text \<open>The first run of the example: a total of 1,000,000 gives a commission of 10.\<close>

lemma first_run_example:
  "fst ex_first_run
     = Inr (Put True, Put True, Put (Final_result 100 ''Transactions successful! Finalizing report...''),
            Put False, Put None,
            Put \<lparr>ipn_coop = Some ''CORECU Ltd'', ipn_success = 1, ipn_failed = 1, ipn_total = 2\<rparr>) \<and>
   map b_status (submission_batches (fst (snd ex_first_run))) = [''processed''] \<and>
   map (\<lambda>r. (fp_id r, fp_verification_status r, fp_verification_reason r, fp_status r, fp_failure_reason r))
     (farmer_payments (fst (snd ex_first_run)))
     = [(1, Some ''verified'', None, Some ''paid'', None),
        (2, Some ''failed'', Some ''Account Closed'', Some ''failed'',
         Some ''Verification Failed: Account Closed'')] \<and>
   map (\<lambda>i. (inv_payment_commission_usd i, inv_payment_commission_reference i))
     (invoices (fst (snd ex_first_run))) = [(Some 10, Some ''CP-PAY-CORECU-1'')] \<and>
   map fp_status (farmer_payments (fst (snd ex_first_run))) = [Some ''paid'', Some ''failed''] \<and>
   map ph_batch_id (payment_history (fst (snd ex_first_run))) = [1] \<and>
   cursor (snd (snd ex_first_run)) = 4"
  by (simp add: ex_first_run_def pipeline_defs string_defs random_defs example_defs Let_def)

theorem commission_at_settlement_witness:
  "fst ex_first_run
     = Inr (Put True, Put True, Put (Final_result 100 ''Transactions successful! Finalizing report...''),
            Put False, Put None,
            Put \<lparr>ipn_coop = Some ''CORECU Ltd'', ipn_success = 1, ipn_failed = 1, ipn_total = 2\<rparr>) \<and>
   select_batch_info ex_pending 1 = Some (Some ''CORECU Ltd'', ''May - may.csv'', 2, 1000000) \<and>
   map inv_payment_commission_usd (invoices (fst (snd ex_first_run)))
     = [Some (1000000 * (25 / 1000) / 2500)] \<and>
   map inv_payment_commission_reference (invoices (fst (snd ex_first_run)))
     = [Some (''CP-PAY-'' @ upper ''CORECU'' @ ''-'' @ str_nat 1)]"
proof -
  obtain d' g' where
    f: "finalize_step ex_now ex_rng ex_pending \<lparr>bd_id = 1, bd_status = ''pending_admin_approval''\<rparr>
          (Some ex_approver)
        = (Inr (Put True, Put True,
                Put (Final_result 100 ''Transactions successful! Finalizing report...''),
                Put False, Put None,
                Put \<lparr>ipn_coop = Some ''CORECU Ltd'', ipn_success = 1, ipn_failed = 1, ipn_total = 2\<rparr>),
           d', g')"
    using first_run_example unfolding ex_first_run_def
    by (cases "finalize_step ex_now ex_rng ex_pending
                 \<lparr>bd_id = 1, bd_status = ''pending_admin_approval''\<rparr> (Some ex_approver)") auto
  have i: "select_batch_info ex_pending 1 = Some (Some ''CORECU Ltd'', ''May - may.csv'', 2, 1000000)"
    by (simp add: select_batch_info_def example_defs)
  have t: "split ''CORECU Ltd'' = [''CORECU'', ''Ltd'']"
    by (simp add: split_def is_space_def)
  from commission_at_settlement [OF f] i t
  have "invoices d' =
          map (\<lambda>i. if inv_batch_id i = 1
                   then i\<lparr>inv_payment_commission_usd := Some (1000000 * (25 / 1000) / 2500),
                          inv_payment_commission_reference :=
                            Some (''CP-PAY-'' @ upper ''CORECU'' @ ''-'' @ str_nat 1)\<rparr>
                   else i) (invoices ex_pending)"
    by auto
  then have "map inv_payment_commission_usd (invoices d') = [Some (1000000 * (25 / 1000) / 2500)]"
    and "map inv_payment_commission_reference (invoices d')
           = [Some (''CP-PAY-'' @ upper ''CORECU'' @ ''-'' @ str_nat 1)]"
    by (simp_all add: ex_pending_def ex_submitted_def)
  with f i first_run_example show ?thesis by (simp add: ex_first_run_def)
qed

subsection \<open>Invoices stay\<close>

text \<open>No handler removes an invoice or changes the cooperative an invoice belongs to,
  so the sequence numbers a cooperative is given grow from one invoice to the next.\<close>

lemma handle_pin_step_invoices:
  "invoices (snd (handle_pin_step H now d n pin pd sess)) = invoices d"
  by (simp add: handle_pin_step_def Let_def split: list.splits)

lemma create_payment_commission_invoice_names:
  assumes "create_payment_commission c bid coop amt = Inr (c', usd, ref)"
  shows "map inv_cooperative_name (invoices c') = map inv_cooperative_name (invoices c)"
proof -
  have "map inv_cooperative_name
          (map (\<lambda>i. if inv_batch_id i = bid
                    then i\<lparr>inv_payment_commission_usd := x, inv_payment_commission_reference := y\<rparr>
                    else i) xs)
        = map inv_cooperative_name xs" for x y xs
    by (induction xs) auto
  then show ?thesis using assms
    by (auto simp: create_payment_commission_def Let_def split: sum.splits)
qed

lemma settle_invoice_names:
  "map inv_cooperative_name (invoices (fst (snd (settle now g d bid))))
     = map inv_cooperative_name (invoices d)"
proof (cases "settle now g d bid")
  case (fields r d' g')
  then show ?thesis
    by (auto simp: settle_def Let_def dest!: create_payment_commission_invoice_names
        split: prod.splits option.splits sum.splits)
qed

lemma finalize_step_invoice_names:
  "map inv_cooperative_name (invoices (fst (snd (finalize_step now g d bd sess))))
     = map inv_cooperative_name (invoices d)"
proof -
  obtain e1 d1 g1 where a: "(if bd_status bd = ''pending_admin_approval''
               then admin_recheck now g d (bd_id bd) sess else (None, d, g)) = (e1, d1, g1)"
    by (rule prod_cases3)
  have d1: "invoices d1 = invoices d" by (rule finalize_step_recheck(2) [OF a])
  show ?thesis
  proof (cases e1)
    case (Some err)
    with a d1 show ?thesis by (simp add: finalize_step_def Let_def)
  next
    case None
    obtain r d2 g2 where s: "settle now g1 d1 (bd_id bd) = (r, d2, g2)" by (rule prod_cases3)
    with settle_invoice_names [of now g1 d1 "bd_id bd"] d1
    have "map inv_cooperative_name (invoices d2) = map inv_cooperative_name (invoices d)" by simp
    with a None s show ?thesis
      by (cases r) (auto simp: finalize_step_def Let_def split: prod.splits)
  qed
qed

lemma handle_payment_processing_invoice_names:
  "map inv_cooperative_name
     (invoices (fst (snd (handle_payment_processing now g d trig n is_open bd sess))))
     = map inv_cooperative_name (invoices d)"
  by (simp add: handle_payment_processing_def Let_def finalize_step_invoice_names)

lemma submit_to_approver_invoice_names:
  "\<exists>new. map inv_cooperative_name
            (invoices (snd (submit_to_approver now d n table_data store sess note)))
          = map inv_cooperative_name (invoices d) @ new"
  by (auto simp: submit_to_approver_def Let_def create_invoice_def split: sum.splits if_splits)

section \<open>Running the finalize step again\<close>










end
